theory Spec2Isabelle
  imports Main "HOL-Library.Word"
begin

unbundle bit_operations_syntax

section \<open>Bytes and SHA-1\<close>

text \<open>
  The piece manager compares \<^verbatim>\<open>hashlib.sha1(data).hexdigest()\<close> with the expected
  hash. The digest is the SHA-1 of FIPS 180: padding to a multiple of 64 bytes, an
  80-word message schedule per block, four phases of 20 rounds, and the five state words
  printed as 40 lower-case hexadecimal digits.
\<close>

type_synonym byte = "8 word"
type_synonym u32 = "32 word"

definition rotl32 :: "nat \<Rightarrow> u32 \<Rightarrow> u32" where
  "rotl32 n w = push_bit n w OR drop_bit (32 - n) w"

definition sha1_pad :: "byte list \<Rightarrow> byte list" where
  "sha1_pad m = m @ [0x80] @ replicate ((119 - length m mod 64) mod 64) 0
     @ map (\<lambda>i. ucast (drop_bit (8 * (7 - i)) (of_nat (8 * length m) :: 64 word))) [0..<8]"

fun be_words :: "byte list \<Rightarrow> u32 list" where
  "be_words (a # b # c # d # rest) =
     (push_bit 24 (ucast a) OR push_bit 16 (ucast b) OR push_bit 8 (ucast c) OR ucast d) # be_words rest"
| "be_words _ = []"

fun chunks :: "nat \<Rightarrow> 'a list \<Rightarrow> 'a list list" where
  "chunks n [] = []"
| "chunks n xs = (if n = 0 then [xs] else take n xs # chunks n (drop n xs))"

fun sha1_extend :: "nat \<Rightarrow> u32 list \<Rightarrow> u32 list" where
  "sha1_extend 0 ws = ws"
| "sha1_extend (Suc n) ws =
     sha1_extend n (rotl32 1 (ws ! 2 XOR ws ! 7 XOR ws ! 13 XOR ws ! 15) # ws)"

type_synonym sha1_state = "u32 \<times> u32 \<times> u32 \<times> u32 \<times> u32"

fun sha1_round :: "(u32 \<Rightarrow> u32 \<Rightarrow> u32 \<Rightarrow> u32) \<Rightarrow> u32 \<Rightarrow> sha1_state \<Rightarrow> u32 \<Rightarrow> sha1_state" where
  "sha1_round f k (a, b, c, d, e) w = (rotl32 5 a + f b c d + e + k + w, a, rotl32 30 b, c, d)"

definition sha1_ch :: "u32 \<Rightarrow> u32 \<Rightarrow> u32 \<Rightarrow> u32" where
  "sha1_ch b c d = (b AND c) OR (NOT b AND d)"

definition sha1_parity :: "u32 \<Rightarrow> u32 \<Rightarrow> u32 \<Rightarrow> u32" where
  "sha1_parity b c d = b XOR c XOR d"

definition sha1_maj :: "u32 \<Rightarrow> u32 \<Rightarrow> u32 \<Rightarrow> u32" where
  "sha1_maj b c d = (b AND c) OR (b AND d) OR (c AND d)"

fun sha1_block :: "sha1_state \<Rightarrow> byte list \<Rightarrow> sha1_state" where
  "sha1_block (h0, h1, h2, h3, h4) blk =
     (let w = rev (sha1_extend 64 (rev (be_words blk)));
          s1 = foldl (sha1_round sha1_ch 0x5A827999) (h0, h1, h2, h3, h4) (take 20 w);
          s2 = foldl (sha1_round sha1_parity 0x6ED9EBA1) s1 (take 20 (drop 20 w));
          s3 = foldl (sha1_round sha1_maj 0x8F1BBCDC) s2 (take 20 (drop 40 w));
          s4 = foldl (sha1_round sha1_parity 0xCA62C1D6) s3 (drop 60 w)
      in case s4 of (a, b, c, d, e) \<Rightarrow> (h0 + a, h1 + b, h2 + c, h3 + d, h4 + e))"

definition sha1_init :: sha1_state where
  "sha1_init = (0x67452301, 0xEFCDAB89, 0x98BADCFE, 0x10325476, 0xC3D2E1F0)"

definition hex_digit :: "nat \<Rightarrow> char" where
  "hex_digit n = ''0123456789abcdef'' ! (n mod 16)"

definition hex_byte :: "byte \<Rightarrow> string" where
  "hex_byte b = [hex_digit (unat b div 16), hex_digit (unat b mod 16)]"

definition hex_u32 :: "u32 \<Rightarrow> string" where
  "hex_u32 w = hex_byte (ucast (drop_bit 24 w)) @ hex_byte (ucast (drop_bit 16 w))
     @ hex_byte (ucast (drop_bit 8 w)) @ hex_byte (ucast w)"

definition sha1_hexdigest :: "byte list \<Rightarrow> string" where
  "sha1_hexdigest m =
     (case foldl sha1_block sha1_init (chunks 64 (sha1_pad m)) of
        (a, b, c, d, e) \<Rightarrow> concat (map hex_u32 [a, b, c, d, e]))"

section \<open>PieceManager (src/node/transfer.py)\<close>

text \<open>
  The fields of the class that the operations below read or write. \<open>files\<close> keeps the
  \<^verbatim>\<open>length\<close> entry of each file dictionary. Piece indices are natural numbers: the
  callers take them from \<^verbatim>\<open>range(piece_count)\<close> or from an unsigned big-endian field of
  a wire message. \<open>piece_files\<close> is the trace of the writes to \<^verbatim>\<open>piece_<i>.tmp\<close>.
\<close>

record piece_manager =
  piece_length :: int
  piece_count :: nat
  files :: "int list"
  have_pieces :: "bool list"
  requested_pieces :: "nat set"
  piece_hashes :: "string list"
  bytes_downloaded :: int
  bytes_uploaded :: int
  piece_files :: "(nat \<times> byte list) list"

datatype py_error = IndexError | ValueError | ConnectionError | OSError

text \<open>Whether an operation on the file system or on a socket completes or raises.\<close>

datatype io_outcome = IoOk | IoRaises

definition set_piece_hashes :: "string list \<Rightarrow> piece_manager \<Rightarrow> piece_manager" where
  "set_piece_hashes hashes s = s\<lparr>piece_hashes := hashes\<rparr>"

definition verify_piece :: "piece_manager \<Rightarrow> nat \<Rightarrow> byte list \<Rightarrow> bool" where
  "verify_piece s piece_index data =
     (if piece_hashes s = [] \<or> piece_index \<ge> length (piece_hashes s) then True
      else sha1_hexdigest data = piece_hashes s ! piece_index)"

text \<open>
  \<^verbatim>\<open>_check_existing_data\<close>: for every file entry, every index of
  \<^verbatim>\<open>range(piece_count)\<close> whose piece file exists is marked, after verification when
  hashes are present. \<open>disk i\<close> is the content of \<^verbatim>\<open>piece_<i>.tmp\<close> when it exists,
  \<open>sizes k\<close> the size of the \<open>k\<close>-th payload file when it exists.
\<close>

fun scan_pieces :: "(nat \<Rightarrow> byte list option) \<Rightarrow> nat list \<Rightarrow> piece_manager \<Rightarrow> piece_manager" where
  "scan_pieces disk [] s = s"
| "scan_pieces disk (i # rest) s =
     scan_pieces disk rest
       (case disk i of
          None \<Rightarrow> s
        | Some data \<Rightarrow>
            if piece_hashes s \<noteq> [] \<and> i < length (piece_hashes s)
            then (if verify_piece s i data
                  then s\<lparr>have_pieces := (have_pieces s)[i := True]\<rparr> else s)
            else s\<lparr>have_pieces := (have_pieces s)[i := True]\<rparr>)"

definition check_existing_data ::
  "(nat \<Rightarrow> byte list option) \<Rightarrow> (nat \<Rightarrow> int option) \<Rightarrow> piece_manager \<Rightarrow> piece_manager" where
  "check_existing_data disk sizes s =
     (let total_expected_size = sum_list (files s);
          total_existing_size =
            sum_list (map (\<lambda>k. case sizes k of None \<Rightarrow> 0 | Some n \<Rightarrow> n) [0..<length (files s)]);
          s' = fold (\<lambda>_. scan_pieces disk [0..<piece_count s]) (files s) s
      in if total_expected_size > 0
         then s'\<lparr>bytes_downloaded := min total_existing_size total_expected_size\<rparr>
         else s')"

definition piece_manager_init ::
  "int \<Rightarrow> nat \<Rightarrow> int list \<Rightarrow> (nat \<Rightarrow> byte list option) \<Rightarrow> (nat \<Rightarrow> int option) \<Rightarrow> piece_manager" where
  "piece_manager_init plen pcount fs disk sizes =
     check_existing_data disk sizes
       \<lparr>piece_length = plen, piece_count = pcount, files = fs,
        have_pieces = replicate pcount False, requested_pieces = {},
        piece_hashes = [], bytes_downloaded = 0, bytes_uploaded = 0, piece_files = []\<rparr>"

text \<open>\<^verbatim>\<open>bytes_left\<close>, with the total size it computes.\<close>

definition total_size :: "piece_manager \<Rightarrow> int" where
  "total_size s = sum_list (files s)"

definition bytes_left :: "piece_manager \<Rightarrow> int" where
  "bytes_left s = max 0 (total_size s - bytes_downloaded s)"

text \<open>
  \<^verbatim>\<open>get_rarest_piece\<close> returns \<^verbatim>\<open>random.choice(candidates)\<close>, that is
  \<^verbatim>\<open>candidates[randbelow(len(candidates))]\<close>. The draw is the argument \<open>rnd\<close>.
\<close>

definition get_rarest_piece :: "nat \<Rightarrow> nat list \<Rightarrow> nat option" where
  "get_rarest_piece rnd candidates =
     (if candidates = [] then None
      else Some (candidates ! (rnd mod length candidates)))"

text \<open>
  The test of the candidate loop. Python's \<^verbatim>\<open>and\<close> evaluates from the left and stops
  at the first false operand, so \<^verbatim>\<open>peer_has_pieces[i]\<close> is read, and can raise, only
  for a piece that is neither held nor requested.
\<close>

definition is_candidate :: "piece_manager \<Rightarrow> bool list \<Rightarrow> nat \<Rightarrow> py_error + bool" where
  "is_candidate s peer_has_pieces i =
     (if i \<ge> length (have_pieces s) then Inl IndexError
      else if \<not> have_pieces s ! i \<and> i \<notin> requested_pieces s
      then (if i \<ge> length peer_has_pieces then Inl IndexError else Inr (peer_has_pieces ! i))
      else Inr False)"

fun collect_candidates ::
  "piece_manager \<Rightarrow> bool list \<Rightarrow> nat list \<Rightarrow> nat list \<Rightarrow> py_error + nat list" where
  "collect_candidates s peer_has_pieces [] candidates = Inr candidates"
| "collect_candidates s peer_has_pieces (i # rest) candidates =
     (case is_candidate s peer_has_pieces i of
        Inl e \<Rightarrow> Inl e
      | Inr b \<Rightarrow> collect_candidates s peer_has_pieces rest
                  (if b then candidates @ [i] else candidates))"

definition get_next_request ::
  "nat \<Rightarrow> bool list \<Rightarrow> piece_manager \<Rightarrow> py_error + (nat option \<times> piece_manager)" where
  "get_next_request rnd peer_has_pieces s =
     (case collect_candidates s peer_has_pieces [0..<piece_count s] [] of
        Inl e \<Rightarrow> Inl e
      | Inr candidates \<Rightarrow>
          if candidates = [] then Inr (None, s)
          else (case get_rarest_piece rnd candidates of
                  Some rarest_piece \<Rightarrow>
                    Inr (Some rarest_piece,
                         s\<lparr>requested_pieces := insert rarest_piece (requested_pieces s)\<rparr>)
                | None \<Rightarrow>
                    Inr (Some (hd candidates),
                         s\<lparr>requested_pieces := insert (hd candidates) (requested_pieces s)\<rparr>)))"

text \<open>
  \<^verbatim>\<open>receive_piece\<close>. \<open>wr\<close> says whether writing the piece file raises, \<open>asm\<close>
  whether \<^verbatim>\<open>_assemble_files\<close> raises; both exceptions are caught by the
  \<^verbatim>\<open>except Exception\<close> of the method, which then returns False, as it does for
  the IndexError of \<^verbatim>\<open>have_pieces[piece_index] = True\<close>.
\<close>

definition receive_piece ::
  "io_outcome \<Rightarrow> io_outcome \<Rightarrow> piece_manager \<Rightarrow> nat \<Rightarrow> byte list \<Rightarrow> bool \<times> piece_manager" where
  "receive_piece wr asm s piece_index data =
     (if int (length data) > piece_length s then (False, s)
      else if \<not> verify_piece s piece_index data
      then (False, s\<lparr>requested_pieces := requested_pieces s - {piece_index}\<rparr>)
      else if wr = IoRaises then (False, s)
      else
        let s1 = s\<lparr>piece_files := piece_files s @ [(piece_index, data)]\<rparr> in
        if piece_index \<ge> length (have_pieces s1) then (False, s1)
        else
          let s2 = s1\<lparr>have_pieces := (have_pieces s1)[piece_index := True],
                       requested_pieces := requested_pieces s1 - {piece_index},
                       bytes_downloaded := bytes_downloaded s1 + int (length data)\<rparr> in
          if list_all (\<lambda>p. p) (have_pieces s2) \<and> asm = IoRaises then (False, s2)
          else (True, s2))"

text \<open>
  Modelled from the spec: the expected length of the final piece, which the source never
  computes: \<open>total_bytes - (P-1) * piece_length\<close>.
\<close>

definition last_piece_length :: "piece_manager \<Rightarrow> int" where
  "last_piece_length s = total_size s - (int (piece_count s) - 1) * piece_length s"

text \<open>
  Modelled from the spec: the rarity of a piece, which the source never computes: the
  number of connected sessions whose availability map includes the piece.
\<close>

definition rarity :: "bool list list \<Rightarrow> nat \<Rightarrow> nat" where
  "rarity sessions i = length (filter (\<lambda>avail. i < length avail \<and> avail ! i) sessions)"

section \<open>PeerConnection (src/node/transfer.py)\<close>

text \<open>
  \<^verbatim>\<open>info_hash\<close> is used both as a hexadecimal string and as raw bytes
  (\<^verbatim>\<open>isinstance(self.info_hash, str)\<close>). \<open>our_peer_id\<close> is the encoded peer id.
  \<open>conn_log\<close> is the trace of the warnings of \<^verbatim>\<open>connect\<close>.
\<close>

datatype info_hash_repr = HashStr string | HashBytes "byte list"

datatype log_event = WarnPeerIdDiffers | ErrorConnecting

record peer_connection =
  info_hash :: info_hash_repr
  our_peer_id :: "byte list"
  peer_id :: string
  socket_open :: bool
  connected :: bool
  peer_choking :: bool
  am_choking :: bool
  peer_interested :: bool
  am_interested :: bool
  peer_bitfield :: "bool list"
  request_queue :: "(nat \<times> nat \<times> nat) list"
  conn_bytes_downloaded :: int
  conn_bytes_uploaded :: int
  conn_log :: "log_event list"

definition hex_val :: "char \<Rightarrow> nat option" where
  "hex_val c =
     (let n = (of_char c :: nat) in
      if 48 \<le> n \<and> n \<le> 57 then Some (n - 48)
      else if 97 \<le> n \<and> n \<le> 102 then Some (n - 87)
      else if 65 \<le> n \<and> n \<le> 70 then Some (n - 55)
      else None)"

definition is_space :: "char \<Rightarrow> bool" where
  "is_space c = ((of_char c :: nat) \<in> {32, 9, 10, 11, 12, 13})"

text \<open>
  \<^verbatim>\<open>bytes.fromhex\<close>: ASCII whitespace before a byte is skipped, every byte is two
  hexadecimal digits, anything else raises ValueError (None).
\<close>

fun fromhex :: "string \<Rightarrow> byte list option" where
  "fromhex [] = Some []"
| "fromhex [c] = (if is_space c then Some [] else None)"
| "fromhex (c # d # rest) =
     (if is_space c then fromhex (d # rest)
      else (case (hex_val c, hex_val d) of
              (Some a, Some b) \<Rightarrow> map_option ((#) (of_nat (16 * a + b))) (fromhex rest)
            | _ \<Rightarrow> None))"

definition bytes_hex :: "byte list \<Rightarrow> string" where
  "bytes_hex bs = concat (map hex_byte bs)"

definition ascii_bytes :: "string \<Rightarrow> byte list" where
  "ascii_bytes str = map (\<lambda>c. of_nat (of_char c)) str"

text \<open>
  The network as \<^verbatim>\<open>connect\<close> sees it: whether \<^verbatim>\<open>socket.connect\<close> and the two
  \<^verbatim>\<open>sendall\<close> calls raise, what \<^verbatim>\<open>_read_exactly(n)\<close> returns (None when the peer
  closed the connection or the read failed), and \<^verbatim>\<open>bytes.decode(errors='replace')\<close>.
\<close>

record net_env =
  tcp_connect :: io_outcome
  send_handshake :: io_outcome
  read_exactly :: "nat \<Rightarrow> byte list option"
  decode_replace :: "byte list \<Rightarrow> string"
  send_message_io :: io_outcome

definition close :: "peer_connection \<Rightarrow> peer_connection" where
  "close c = c\<lparr>connected := False, socket_open := False\<rparr>"

text \<open>
  \<^verbatim>\<open>_send_message\<close> holds \<^verbatim>\<open>self.lock\<close>, a non-reentrant \<^verbatim>\<open>threading.Lock\<close>,
  and calls \<^verbatim>\<open>self.close()\<close> when \<^verbatim>\<open>sendall\<close> raises; \<^verbatim>\<open>close\<close> takes the same
  lock, so that call never returns: None.
\<close>

definition send_message :: "io_outcome \<Rightarrow> peer_connection \<Rightarrow> (bool \<times> peer_connection) option" where
  "send_message io c =
     (if \<not> connected c \<or> \<not> socket_open c then Some (False, c)
      else if io = IoOk then Some (True, c)
      else None)"

definition send_interested :: "io_outcome \<Rightarrow> peer_connection \<Rightarrow> (bool \<times> peer_connection) option" where
  "send_interested io c =
     (case send_message io c of
        None \<Rightarrow> None
      | Some (result, c') \<Rightarrow> Some (result, if result then c'\<lparr>am_interested := True\<rparr> else c'))"

definition send_unchoke :: "io_outcome \<Rightarrow> peer_connection \<Rightarrow> (bool \<times> peer_connection) option" where
  "send_unchoke io c =
     (case send_message io c of
        None \<Rightarrow> None
      | Some (result, c') \<Rightarrow> Some (result, if result then c'\<lparr>am_choking := False\<rparr> else c'))"

definition handshake_frame :: "byte list \<Rightarrow> byte list \<Rightarrow> byte list" where
  "handshake_frame info_hash_bytes peer_id_bytes =
     [of_nat (length ''BitTorrent protocol'')] @ ascii_bytes ''BitTorrent protocol''
       @ replicate 8 0 @ info_hash_bytes @ peer_id_bytes"

definition info_hash_bytes :: "peer_connection \<Rightarrow> byte list option" where
  "info_hash_bytes c = (case info_hash c of HashStr h \<Rightarrow> fromhex h | HashBytes bs \<Rightarrow> Some bs)"

definition info_hash_hex :: "peer_connection \<Rightarrow> string" where
  "info_hash_hex c = (case info_hash c of HashStr h \<Rightarrow> h | HashBytes bs \<Rightarrow> bytes_hex bs)"

definition perform_handshake :: "net_env \<Rightarrow> peer_connection \<Rightarrow> py_error + string" where
  "perform_handshake env c =
     (case info_hash_bytes c of
        None \<Rightarrow> Inl ValueError
      | Some ih_bytes \<Rightarrow>
          let handshake = handshake_frame ih_bytes (our_peer_id c) in
          if send_handshake env = IoRaises then Inl OSError
          else (case read_exactly env (length handshake) of
                  None \<Rightarrow> Inl ConnectionError
                | Some response \<Rightarrow>
                    if response = [] then Inl ConnectionError
                    else if bytes_hex (take 20 (drop 28 response)) \<noteq> info_hash_hex c
                    then Inl ValueError
                    else Inr (decode_replace env (take 20 (drop 48 response)))))"

text \<open>
  \<^verbatim>\<open>connect\<close>. Every exception of the \<^verbatim>\<open>try\<close> block is logged, the connection
  closed and False returned. The two threads started at the end are not part of the
  result.
\<close>

definition connect :: "net_env \<Rightarrow> peer_connection \<Rightarrow> (bool \<times> peer_connection) option" where
  "connect env c =
     (if connected c then Some (True, c)
      else
        let c0 = c\<lparr>socket_open := True\<rparr> in
        if tcp_connect env = IoRaises
        then Some (False, close (c0\<lparr>conn_log := conn_log c0 @ [ErrorConnecting]\<rparr>))
        else (case perform_handshake env c0 of
                Inl e \<Rightarrow> Some (False, close (c0\<lparr>conn_log := conn_log c0 @ [ErrorConnecting]\<rparr>))
              | Inr resp_peer_id \<Rightarrow>
                  let c1 = (if resp_peer_id \<noteq> peer_id c0
                            then c0\<lparr>conn_log := conn_log c0 @ [WarnPeerIdDiffers]\<rparr> else c0);
                      c2 = c1\<lparr>connected := True\<rparr>
                  in (case send_interested (send_message_io env) c2 of
                        None \<Rightarrow> None
                      | Some (_, c3) \<Rightarrow> Some (True, c3))))"

text \<open>\<^verbatim>\<open>_process_bitfield\<close>: the loop over \<^verbatim>\<open>range(piece_count)\<close> with its break.\<close>

fun bitfield_loop :: "byte list \<Rightarrow> nat list \<Rightarrow> bool list \<Rightarrow> bool list" where
  "bitfield_loop payload [] bf = bf"
| "bitfield_loop payload (i # rest) bf =
     (let byte_index = i div 8 in
      if byte_index \<ge> length payload then bf
      else
        let bit_index = 7 - i mod 8;
            has_piece = drop_bit bit_index (payload ! byte_index) AND 1
        in bitfield_loop payload rest (if has_piece \<noteq> 0 then bf[i := True] else bf))"

definition process_bitfield :: "byte list \<Rightarrow> peer_connection \<Rightarrow> peer_connection" where
  "process_bitfield payload c =
     (let piece_count = length (peer_bitfield c);
          expected_length = (piece_count + 7) div 8
      in if length payload < expected_length then c
         else c\<lparr>peer_bitfield := bitfield_loop payload [0..<piece_count] (peer_bitfield c)\<rparr>)"

text \<open>
  One dispatch of \<^verbatim>\<open>_receiver_loop\<close>, for a message whose id and payload were read.
  An exception leaves the loop (\<open>Break\<close>), after which the loop's last statement
  closes the connection. The time stamps are not part of the state. \<open>disk\<close> gives the
  content of a piece file, \<open>send_io\<close> the outcome of the \<^verbatim>\<open>sendall\<close> of this
  dispatch, \<open>wr\<close> and \<open>asm\<close> those of \<^verbatim>\<open>receive_piece\<close>.
\<close>

datatype loop_step = Continue | Break

definition from_bytes_big :: "byte list \<Rightarrow> nat" where
  "from_bytes_big bs = foldl (\<lambda>acc b. acc * 256 + unat b) 0 bs"

fun needs_any :: "bool list \<Rightarrow> (nat \<times> bool) list \<Rightarrow> py_error + bool" where
  "needs_any have [] = Inr False"
| "needs_any have ((i, has_piece) # rest) =
     (if has_piece
      then (if i \<ge> length have then Inl IndexError
            else if \<not> have ! i then Inr True
            else needs_any have rest)
      else needs_any have rest)"

definition process_request ::
  "io_outcome \<Rightarrow> (nat \<Rightarrow> byte list option) \<Rightarrow> byte list \<Rightarrow> peer_connection \<times> piece_manager
     \<Rightarrow> (peer_connection \<times> piece_manager) option" where
  "process_request send_io disk payload cp =
     (case cp of (c, pm) \<Rightarrow>
        if am_choking c then Some (c, pm)
        else if length payload < 12 then Some (c, pm)
        else
          let piece_index = from_bytes_big (take 4 payload);
              begin = from_bytes_big (take 4 (drop 4 payload));
              len = from_bytes_big (take 4 (drop 8 payload))
          in if piece_index \<ge> length (have_pieces pm) \<or> \<not> have_pieces pm ! piece_index
             then Some (c, pm)
             else (case disk piece_index of
                     None \<Rightarrow> Some (c, pm)
                   | Some content \<Rightarrow>
                       let data = take len (drop begin content) in
                       if length data \<noteq> len then Some (c, pm)
                       else (case send_message send_io c of
                               None \<Rightarrow> None
                             | Some (_, c') \<Rightarrow>
                                 Some (c'\<lparr>conn_bytes_uploaded :=
                                            conn_bytes_uploaded c' + int (length data)\<rparr>,
                                       pm\<lparr>bytes_uploaded :=
                                            bytes_uploaded pm + int (length data)\<rparr>))))"

definition dispatch ::
  "io_outcome \<Rightarrow> io_outcome \<Rightarrow> io_outcome \<Rightarrow> (nat \<Rightarrow> byte list option) \<Rightarrow> byte \<Rightarrow> byte list
     \<Rightarrow> peer_connection \<times> piece_manager \<Rightarrow> (loop_step \<times> peer_connection \<times> piece_manager) option" where
  "dispatch send_io wr asm disk msg_id payload cp =
     (case cp of (c, pm) \<Rightarrow>
        if msg_id = 0 then Some (Continue, c\<lparr>peer_choking := True\<rparr>, pm)
        else if msg_id = 1 then Some (Continue, c\<lparr>peer_choking := False\<rparr>, pm)
        else if msg_id = 2 then
          (let c1 = c\<lparr>peer_interested := True\<rparr> in
           if am_choking c1
           then (case send_unchoke send_io c1 of
                   None \<Rightarrow> None
                 | Some (_, c2) \<Rightarrow> Some (Continue, c2, pm))
           else Some (Continue, c1, pm))
        else if msg_id = 3 then Some (Continue, c\<lparr>peer_interested := False\<rparr>, pm)
        else if msg_id = 4 then
          (let piece_index = from_bytes_big payload in
           if piece_index \<ge> length (peer_bitfield c) then Some (Break, close c, pm)
           else
             let c1 = c\<lparr>peer_bitfield := (peer_bitfield c)[piece_index := True]\<rparr> in
             if piece_index \<ge> length (have_pieces pm) then Some (Break, close c1, pm)
             else if \<not> have_pieces pm ! piece_index \<and> \<not> am_interested c1
             then (case send_interested send_io c1 of
                     None \<Rightarrow> None
                   | Some (_, c2) \<Rightarrow> Some (Continue, c2, pm))
             else Some (Continue, c1, pm))
        else if msg_id = 5 then
          (let c1 = process_bitfield payload c in
           case needs_any (have_pieces pm) (enumerate 0 (peer_bitfield c1)) of
             Inl e \<Rightarrow> Some (Break, close c1, pm)
           | Inr needed \<Rightarrow>
               if needed \<and> \<not> am_interested c1
               then (case send_interested send_io c1 of
                       None \<Rightarrow> None
                     | Some (_, c2) \<Rightarrow> Some (Continue, c2, pm))
               else Some (Continue, c1, pm))
        else if msg_id = 6 then
          (case process_request send_io disk payload (c, pm) of
             None \<Rightarrow> None
           | Some (c1, pm1) \<Rightarrow> Some (Continue, c1, pm1))
        else if msg_id = 7 then
          (if length payload < 8 then Some (Continue, c, pm)
           else
             let index = from_bytes_big (take 4 payload);
                 block = drop 8 payload;
                 c1 = c\<lparr>conn_bytes_downloaded := conn_bytes_downloaded c + int (length block)\<rparr>
             in (case receive_piece wr asm pm index block of
                   (result, pm1) \<Rightarrow>
                     Some (Continue,
                           if result
                           then c1\<lparr>request_queue := filter (\<lambda>r. fst r \<noteq> index) (request_queue c1)\<rparr>
                           else c1,
                           pm1)))
        else Some (Continue, c, pm))"

section \<open>Tracker announce (src/node/peer.py)\<close>

text \<open>
  The value of \<^verbatim>\<open>response.json()\<close>. An object is the list of its members in document
  order; \<^verbatim>\<open>dict.get\<close> sees the last member of a name. A string is the list of its
  characters, each a code point below 256.
\<close>

datatype json =
  JNull | JBool bool | JNum int | JStr string | JArr "json list" | JObj "(string \<times> json) list"

datatype http_result = RequestRaises | HttpResponse int "json option"

definition dict_get :: "(string \<times> json) list \<Rightarrow> string \<Rightarrow> json option" where
  "dict_get members k = map_of (rev members) k"

definition announce_payload :: "string \<Rightarrow> string \<Rightarrow> int \<Rightarrow> piece_manager \<Rightarrow> string \<Rightarrow> json" where
  "announce_payload own_id ih port pm event =
     JObj [(''peer_id'', JStr own_id), (''info_hash'', JStr ih), (''ip'', JStr ''127.0.0.1''),
           (''port'', JNum port), (''uploaded'', JNum (bytes_uploaded pm)),
           (''downloaded'', JNum (bytes_downloaded pm)), (''left'', JNum (bytes_left pm)),
           (''event'', JStr event), (''compact'', JNum 1)]"

text \<open>
  \<^verbatim>\<open>_announce_to_tracker\<close>. \<open>post\<close> is \<^verbatim>\<open>requests.post\<close> on the announce URL: it
  raises, or gives a status code and the parsed body (None when the body is not JSON).
  Every exception, also that of \<^verbatim>\<open>.get\<close> on a body that is no object, returns the
  empty list.
\<close>

definition announce_to_tracker ::
  "(json \<Rightarrow> http_result) \<Rightarrow> string \<Rightarrow> string \<Rightarrow> int \<Rightarrow> piece_manager \<Rightarrow> string \<Rightarrow> json" where
  "announce_to_tracker post own_id ih port pm event =
     (case post (announce_payload own_id ih port pm event) of
        RequestRaises \<Rightarrow> JArr []
      | HttpResponse status_code body \<Rightarrow>
          if status_code = 200
          then (case body of
                  Some (JObj data) \<Rightarrow>
                    (case dict_get data ''peers'' of Some peers \<Rightarrow> peers | None \<Rightarrow> JArr [])
                | _ \<Rightarrow> JArr [])
          else JArr [])"

section \<open>Magnet links (src/node/magnet_utils.py)\<close>

text \<open>
  A Python \<^verbatim>\<open>str\<close> is the list of its code points. \<open>ustr\<close> gives the \<^verbatim>\<open>str\<close> of
  an ASCII literal of the source.
\<close>

type_synonym pystr = "nat list"

definition ustr :: "string \<Rightarrow> pystr" where
  "ustr s = map of_char s"

definition startswith :: "'a list \<Rightarrow> 'a list \<Rightarrow> bool" where
  "startswith text prefix = (take (length prefix) text = prefix)"

text \<open>
  The dictionary returned by \<^verbatim>\<open>parse_magnet\<close>, its optional keys as options; the
  key \<^verbatim>\<open>info_hash\<close> is always there when the function returns.
\<close>

record magnet =
  mag_info_hash :: pystr
  mag_name :: "pystr option"
  mag_trackers :: "pystr list option"

text \<open>
  \<^verbatim>\<open>parse_magnet\<close> calls two functions of the Python library,
  \<^verbatim>\<open>urllib.parse.parse_qs\<close> and \<^verbatim>\<open>str.lower\<close>. They are the arguments
  \<open>parse_qs\<close>, which gives the dictionary from a name to the list of its values, and
  \<open>lower\<close>. The loop over the \<^verbatim>\<open>xt\<close> values stops at the first one that starts
  with \<^verbatim>\<open>urn:btih:\<close>.
\<close>

definition find_btih :: "(pystr \<Rightarrow> pystr) \<Rightarrow> pystr list \<Rightarrow> pystr option" where
  "find_btih lower xts =
     (case filter (\<lambda>xt. startswith xt (ustr ''urn:btih:'')) xts of
        [] \<Rightarrow> None
      | xt # _ \<Rightarrow> Some (lower (drop 9 xt)))"

definition parse_magnet ::
  "(pystr \<Rightarrow> pystr \<rightharpoonup> pystr list) \<Rightarrow> (pystr \<Rightarrow> pystr) \<Rightarrow> pystr \<Rightarrow> py_error + magnet" where
  "parse_magnet parse_qs lower magnet_url =
     (if \<not> startswith magnet_url (ustr ''magnet:?'') then Inl ValueError
      else
        let params = parse_qs (drop 8 magnet_url);
            ih = (case params (ustr ''xt'') of None \<Rightarrow> None | Some xts \<Rightarrow> find_btih lower xts)
        in (case params (ustr ''dn'') of
              Some [] \<Rightarrow> Inl IndexError
            | dn \<Rightarrow>
                (case ih of
                   None \<Rightarrow> Inl ValueError
                 | Some h \<Rightarrow>
                     Inr \<lparr>mag_info_hash = h,
                          mag_name = map_option hd dn,
                          mag_trackers = params (ustr ''tr'')\<rparr>)))"

text \<open>
  The two library functions on ASCII input, to run \<^verbatim>\<open>parse_magnet\<close> on a concrete
  link. \<open>lower_ascii\<close> is \<^verbatim>\<open>str.lower\<close> on a string of ASCII characters.
  \<open>parse_qs_ascii\<close> is \<^verbatim>\<open>parse_qs\<close> with its default arguments on a query whose
  characters are ASCII and whose \<^verbatim>\<open>%XX\<close> escapes name ASCII characters: the query is
  split at \<^verbatim>\<open>&\<close>, a field without \<^verbatim>\<open>=\<close> or with an empty value is dropped,
  \<^verbatim>\<open>+\<close> becomes a space, an escape becomes the character it names, and the values of
  a name are collected in order of appearance. Outside ASCII the library does more
  (case mapping of other letters, UTF-8 decoding of the escaped bytes); these two
  definitions say nothing about such input.
\<close>

definition lower_ascii :: "pystr \<Rightarrow> pystr" where
  "lower_ascii text = map (\<lambda>n. if 65 \<le> n \<and> n \<le> 90 then n + 32 else n) text"

fun split_on :: "'a \<Rightarrow> 'a list \<Rightarrow> 'a list list" where
  "split_on sep [] = [[]]"
| "split_on sep (c # cs) =
     (if c = sep then [] # split_on sep cs
      else (case split_on sep cs of
              w # ws \<Rightarrow> (c # w) # ws
            | [] \<Rightarrow> [[c]]))"

definition split_first :: "'a \<Rightarrow> 'a list \<Rightarrow> ('a list \<times> 'a list) option" where
  "split_first sep text =
     (if sep \<in> set text
      then Some (takeWhile (\<lambda>c. c \<noteq> sep) text, tl (dropWhile (\<lambda>c. c \<noteq> sep) text))
      else None)"

definition hex_val_ascii :: "nat \<Rightarrow> nat option" where
  "hex_val_ascii n =
     (if 48 \<le> n \<and> n \<le> 57 then Some (n - 48)
      else if 97 \<le> n \<and> n \<le> 102 then Some (n - 87)
      else if 65 \<le> n \<and> n \<le> 70 then Some (n - 55)
      else None)"

fun unquote_ascii :: "pystr \<Rightarrow> pystr" where
  "unquote_ascii [] = []"
| "unquote_ascii [c] = [c]"
| "unquote_ascii [c, d] = [c, d]"
| "unquote_ascii (c # d # e # rest) =
     (if c = 37
      then (case (hex_val_ascii d, hex_val_ascii e) of
              (Some a, Some b) \<Rightarrow> (16 * a + b) # unquote_ascii rest
            | _ \<Rightarrow> c # unquote_ascii (d # e # rest))
      else c # unquote_ascii (d # e # rest))"

definition plus_to_space :: "pystr \<Rightarrow> pystr" where
  "plus_to_space text = map (\<lambda>c. if c = 43 then 32 else c) text"

definition parse_qsl_ascii :: "pystr \<Rightarrow> (pystr \<times> pystr) list" where
  "parse_qsl_ascii qs =
     concat (map (\<lambda>name_value.
        if name_value = [] then []
        else (case split_first 61 name_value of
                None \<Rightarrow> []
              | Some (n, v) \<Rightarrow>
                  if v = [] then []
                  else [(unquote_ascii (plus_to_space n), unquote_ascii (plus_to_space v))]))
        (split_on 38 qs))"

fun dict_append :: "(pystr \<times> pystr list) list \<Rightarrow> pystr \<times> pystr \<Rightarrow> (pystr \<times> pystr list) list" where
  "dict_append [] (name, v) = [(name, [v])]"
| "dict_append ((k, vs) # rest) (name, v) =
     (if k = name then (k, vs @ [v]) # rest else (k, vs) # dict_append rest (name, v))"

definition parse_qs_ascii :: "pystr \<Rightarrow> pystr \<rightharpoonup> pystr list" where
  "parse_qs_ascii qs = map_of (foldl dict_append [] (parse_qsl_ascii qs))"

section \<open>Invariant and example states\<close>

text \<open>No piece is both held and requested.\<close>

definition disjoint_inv :: "piece_manager \<Rightarrow> bool" where
  "disjoint_inv s = (\<forall>i < length (have_pieces s). have_pieces s ! i \<longrightarrow> i \<notin> requested_pieces s)"

text \<open>
  Two managers used as concrete inputs. \<open>ex_small\<close>: two pieces of one byte, the bytes
  \<^verbatim>\<open>a\<close> and \<^verbatim>\<open>b\<close>, piece 0 requested. \<open>ex_final\<close>: seven bytes in pieces of four,
  piece 0 (\<^verbatim>\<open>abcd\<close>) held and the final piece requested; its hash is that of the two
  bytes \<^verbatim>\<open>ab\<close>.
\<close>

definition ex_small :: piece_manager where
  "ex_small =
     \<lparr>piece_length = 1, piece_count = 2, files = [2], have_pieces = [False, False],
      requested_pieces = {0},
      piece_hashes = [''86f7e437faa5a7fce15d1ddcb9eaeaea377667b8'',
                      ''e9d71f5ee7c92d6dc9e92ffdad17b8bd49418f98''],
      bytes_downloaded = 0, bytes_uploaded = 0, piece_files = []\<rparr>"

definition ex_final :: piece_manager where
  "ex_final =
     \<lparr>piece_length = 4, piece_count = 2, files = [7], have_pieces = [True, False],
      requested_pieces = {1},
      piece_hashes = [''81fe8bfe87576c3ecb22426f8e57847382917acf'',
                      ''da23614e02469a0d7c7bd1bdab5c9c474b1904dc''],
      bytes_downloaded = 4, bytes_uploaded = 0, piece_files = []\<rparr>"

text \<open>
  What \<^verbatim>\<open>_perform_handshake\<close> compares: the frame read back is not empty and its
  bytes 28 to 47, in hexadecimal, are the local \<^verbatim>\<open>info_hash\<close>.
\<close>

definition fingerprint_matches :: "net_env \<Rightarrow> peer_connection \<Rightarrow> bool" where
  "fingerprint_matches env c =
     (case info_hash_bytes c of
        None \<Rightarrow> False
      | Some ih_bytes \<Rightarrow>
          (case read_exactly env (length (handshake_frame ih_bytes (our_peer_id c))) of
             None \<Rightarrow> False
           | Some response \<Rightarrow>
               response \<noteq> [] \<and> bytes_hex (take 20 (drop 28 response)) = info_hash_hex c))"

text \<open>The frame that \<^verbatim>\<open>_read_exactly(len(handshake))\<close> returns, if any.\<close>

definition received_frame :: "net_env \<Rightarrow> peer_connection \<Rightarrow> byte list option" where
  "received_frame env c =
     (case info_hash_bytes c of
        None \<Rightarrow> None
      | Some ih_bytes \<Rightarrow> read_exactly env (length (handshake_frame ih_bytes (our_peer_id c))))"

text \<open>
  A session before \<^verbatim>\<open>connect\<close> and the same session later; a 68-byte frame whose
  first 28 bytes are zero, followed by the fingerprint of \<open>ex_conn\<close> and another peer id;
  a network that answers the handshake with that frame.
\<close>

definition ex_conn :: peer_connection where
  "ex_conn =
     \<lparr>info_hash = HashStr ''da23614e02469a0d7c7bd1bdab5c9c474b1904dc'',
      our_peer_id = ascii_bytes ''-PY0001-000000000001'',
      peer_id = ''-PY0001-000000000002'',
      socket_open = False, connected = False,
      peer_choking = True, am_choking = True, peer_interested = False, am_interested = False,
      peer_bitfield = [False, False], request_queue = [],
      conn_bytes_downloaded = 0, conn_bytes_uploaded = 0, conn_log = []\<rparr>"

definition ex_session :: peer_connection where
  "ex_session =
     ex_conn\<lparr>socket_open := True, connected := True, peer_choking := False,
             am_interested := True, peer_bitfield := [True, False],
             request_queue := [(1, 0, 1)]\<rparr>"

definition ex_response :: "byte list" where
  "ex_response =
     [0, 0, 0, 0, 0, 0, 0, 0, 0, 0, 0, 0, 0, 0, 0, 0, 0, 0, 0, 0, 0, 0, 0, 0, 0, 0, 0, 0] @
     [0xda, 0x23, 0x61, 0x4e, 0x02, 0x46, 0x9a, 0x0d, 0x7c, 0x7b,
      0xd1, 0xbd, 0xab, 0x5c, 0x9c, 0x47, 0x4b, 0x19, 0x04, 0xdc] @
     ascii_bytes ''-PY0001-000000000009''"

definition ex_env :: net_env where
  "ex_env =
     \<lparr>tcp_connect = IoOk, send_handshake = IoOk,
      read_exactly = (\<lambda>n. if n = 68 then Some ex_response else None),
      decode_replace = map (\<lambda>b. char_of (unat b)),
      send_message_io = IoOk\<rparr>"

text \<open>A magnet link with a name and two trackers.\<close>

definition ex_magnet_url :: pystr where
  "ex_magnet_url =
     ustr ''magnet:?xt=urn:btih:DA23614E02469A0D7C7BD1BDAB5C9C474B1904DC&dn=my+file&tr=http%3A%2F%2Ft1&tr=t2''"

definition ex_magnet_other :: pystr where
  "ex_magnet_other = ustr ''magnet:?dn=my+file&xt=urn:sha1:da23''"

section \<open>The digest of a concrete input\<close>

text \<open>
  The SHA-1 of the two bytes \<^verbatim>\<open>ab\<close>, computed stage by stage: padding, message
  schedule, the four phases of the compression function, hexadecimal output.
\<close>

lemma sha1_extend_numeral:
  "sha1_extend (numeral k) ws =
     sha1_extend (pred_numeral k) (rotl32 1 (ws ! 2 XOR ws ! 7 XOR ws ! 13 XOR ws ! 15) # ws)"
  by (simp add: numeral_eq_Suc)

lemma sha1_ab_pad:
  "chunks 64 (sha1_pad [0x61, 0x62]) =
     [[0x61, 0x62, 0x80, 0x00, 0x00, 0x00, 0x00, 0x00,
       0x00, 0x00, 0x00, 0x00, 0x00, 0x00, 0x00, 0x00,
       0x00, 0x00, 0x00, 0x00, 0x00, 0x00, 0x00, 0x00,
       0x00, 0x00, 0x00, 0x00, 0x00, 0x00, 0x00, 0x00,
       0x00, 0x00, 0x00, 0x00, 0x00, 0x00, 0x00, 0x00,
       0x00, 0x00, 0x00, 0x00, 0x00, 0x00, 0x00, 0x00,
       0x00, 0x00, 0x00, 0x00, 0x00, 0x00, 0x00, 0x00,
       0x00, 0x00, 0x00, 0x00, 0x00, 0x00, 0x00, 0x10]]"
  by code_simp

lemma sha1_ab_schedule:
  "rev (sha1_extend 64 (rev (be_words
      [0x61, 0x62, 0x80, 0x00, 0x00, 0x00, 0x00, 0x00,
       0x00, 0x00, 0x00, 0x00, 0x00, 0x00, 0x00, 0x00,
       0x00, 0x00, 0x00, 0x00, 0x00, 0x00, 0x00, 0x00,
       0x00, 0x00, 0x00, 0x00, 0x00, 0x00, 0x00, 0x00,
       0x00, 0x00, 0x00, 0x00, 0x00, 0x00, 0x00, 0x00,
       0x00, 0x00, 0x00, 0x00, 0x00, 0x00, 0x00, 0x00,
       0x00, 0x00, 0x00, 0x00, 0x00, 0x00, 0x00, 0x00,
       0x00, 0x00, 0x00, 0x00, 0x00, 0x00, 0x00, 0x10]))) =
      [0x61628000, 0x0, 0x0, 0x0, 0x0, 0x0, 0x0, 0x0,
       0x0, 0x0, 0x0, 0x0, 0x0, 0x0, 0x0, 0x10,
       0xC2C50000, 0x0, 0x20, 0x858A0001, 0x0, 0x40, 0xB140003, 0x20,
       0x858A0081, 0x16280006, 0x0, 0x100, 0x2C50000C, 0xA0, 0x93A20207, 0x58A00078,
       0x8E9E0002, 0x400, 0xB14000B0, 0x16280286, 0x4E88081E, 0x628000E1, 0x16280006, 0x1080,
       0xD32800C4, 0xA00, 0x3A202079, 0x8A0007C5, 0xE2F4002B, 0x4080, 0x2280B8D, 0x74A829A7,
       0xD9EC81ED, 0x28000E16, 0x628002E1, 0x4E89089E, 0x24A80C4B, 0xA400, 0x134207A3, 0xA0007ED8,
       0x61C80AA0, 0x628408E1, 0x34A8B8D6, 0x4A828AF7, 0x4DE01E19, 0x8000EBE2, 0x4080E69, 0x62908EE1,
       0xB548C49C, 0xA0000, 0x2020713A, 0x6287C5EB, 0xF4002BE2, 0x408000, 0x280B8D02, 0xA829A674,
       0xC0D1EDD5, 0xE1E28, 0xE282E303, 0xD1A89256, 0x7BCC4B75, 0xA40C00, 0x91C7AB42, 0x62FEC7C1]"
  by (simp add: sha1_extend_numeral rotl32_def)

lemma sha1_ab_phase1:
  "foldl (sha1_round sha1_ch 0x5A827999) (0x67452301, 0xEFCDAB89, 0x98BADCFE, 0x10325476, 0xC3D2E1F0)
      [0x61628000, 0x0, 0x0, 0x0, 0x0, 0x0, 0x0, 0x0,
       0x0, 0x0, 0x0, 0x0, 0x0, 0x0, 0x0, 0x10,
       0xC2C50000, 0x0, 0x20, 0x858A0001] =
     (0x5F1BF5E6, 0x2885A5D3, 0x9B46E22B, 0x82AD483C, 0xA2EB4213)"
  by (simp add: rotl32_def sha1_ch_def)

lemma sha1_ab_phase2:
  "foldl (sha1_round sha1_parity 0x6ED9EBA1) (0x5F1BF5E6, 0x2885A5D3, 0x9B46E22B, 0x82AD483C, 0xA2EB4213)
      [0x0, 0x40, 0xB140003, 0x20, 0x858A0081, 0x16280006, 0x0, 0x100,
       0x2C50000C, 0xA0, 0x93A20207, 0x58A00078, 0x8E9E0002, 0x400, 0xB14000B0, 0x16280286,
       0x4E88081E, 0x628000E1, 0x16280006, 0x1080] =
     (0x51625F14, 0x7213FB3C, 0x7C1FE53F, 0x69865823, 0x81CC61B4)"
  by (simp add: rotl32_def sha1_parity_def)

lemma sha1_ab_phase3:
  "foldl (sha1_round sha1_maj 0x8F1BBCDC) (0x51625F14, 0x7213FB3C, 0x7C1FE53F, 0x69865823, 0x81CC61B4)
      [0xD32800C4, 0xA00, 0x3A202079, 0x8A0007C5, 0xE2F4002B, 0x4080, 0x2280B8D, 0x74A829A7,
       0xD9EC81ED, 0x28000E16, 0x628002E1, 0x4E89089E, 0x24A80C4B, 0xA400, 0x134207A3, 0xA0007ED8,
       0x61C80AA0, 0x628408E1, 0x34A8B8D6, 0x4A828AF7] =
     (0x9AB50638, 0x31BFF9E1, 0x73C68674, 0x87573383, 0x27AE97BC)"
  by (simp add: rotl32_def sha1_maj_def)

lemma sha1_ab_phase4:
  "foldl (sha1_round sha1_parity 0xCA62C1D6) (0x9AB50638, 0x31BFF9E1, 0x73C68674, 0x87573383, 0x27AE97BC)
      [0x4DE01E19, 0x8000EBE2, 0x4080E69, 0x62908EE1, 0xB548C49C, 0xA0000, 0x2020713A, 0x6287C5EB,
       0xF4002BE2, 0x408000, 0x280B8D02, 0xA829A674, 0xC0D1EDD5, 0xE1E28, 0xE282E303, 0xD1A89256,
       0x7BCC4B75, 0xA40C00, 0x91C7AB42, 0x62FEC7C1] =
     (0x72DE3E4D, 0x1278EE84, 0xE3C0F4BF, 0x9B2A47D1, 0x874622EC)"
  by (simp add: rotl32_def sha1_parity_def)

lemma sha1_ab_block:
  "sha1_block sha1_init
      [0x61, 0x62, 0x80, 0x00, 0x00, 0x00, 0x00, 0x00,
       0x00, 0x00, 0x00, 0x00, 0x00, 0x00, 0x00, 0x00,
       0x00, 0x00, 0x00, 0x00, 0x00, 0x00, 0x00, 0x00,
       0x00, 0x00, 0x00, 0x00, 0x00, 0x00, 0x00, 0x00,
       0x00, 0x00, 0x00, 0x00, 0x00, 0x00, 0x00, 0x00,
       0x00, 0x00, 0x00, 0x00, 0x00, 0x00, 0x00, 0x00,
       0x00, 0x00, 0x00, 0x00, 0x00, 0x00, 0x00, 0x00,
       0x00, 0x00, 0x00, 0x00, 0x00, 0x00, 0x00, 0x10] =
     (0xDA23614E, 0x2469A0D, 0x7C7BD1BD, 0xAB5C9C47, 0x4B1904DC)"
  unfolding sha1_init_def sha1_block.simps sha1_ab_schedule Let_def
  by (simp add: sha1_ab_phase1 sha1_ab_phase2 sha1_ab_phase3 sha1_ab_phase4 del: foldl.simps)

lemma sha1_ab_hex:
  "concat (map hex_u32 [0xDA23614E, 0x2469A0D, 0x7C7BD1BD, 0xAB5C9C47, 0x4B1904DC]) =
     ''da23614e02469a0d7c7bd1bdab5c9c474b1904dc''"
  by (simp add: hex_u32_def hex_byte_def hex_digit_def)

lemma sha1_ab: "sha1_hexdigest [0x61, 0x62] = ''da23614e02469a0d7c7bd1bdab5c9c474b1904dc''"
  unfolding sha1_hexdigest_def sha1_ab_pad foldl.simps sha1_ab_block
  by (simp add: hex_u32_def hex_byte_def hex_digit_def)

section \<open>Selecting the next piece\<close>

lemma collect_candidates_filter:
  assumes "\<forall>i\<in>set idxs. i < length (have_pieces s) \<and> i < length peer"
  shows "collect_candidates s peer idxs acc =
           Inr (acc @ filter (\<lambda>i. \<not> have_pieces s ! i \<and> i \<notin> requested_pieces s \<and> peer ! i) idxs)"
  using assms
  by (induction idxs arbitrary: acc) (auto simp: is_candidate_def)

lemma collect_candidates_sound:
  "collect_candidates s peer idxs acc = Inr cands \<Longrightarrow>
     \<forall>c\<in>set cands. c \<in> set acc \<or> (c < length (have_pieces s) \<and> \<not> have_pieces s ! c)"
proof (induction idxs arbitrary: acc)
  case Nil
  then show ?case by simp
next
  case (Cons i rest)
  show ?case
  proof (cases "is_candidate s peer i")
    case (Inl e)
    with Cons.prems show ?thesis by simp
  next
    case (Inr b)
    with Cons.prems have rec: "collect_candidates s peer rest (if b then acc @ [i] else acc) = Inr cands"
      by simp
    have "b \<Longrightarrow> i < length (have_pieces s) \<and> \<not> have_pieces s ! i"
      using Inr by (auto simp: is_candidate_def split: if_splits)
    with Cons.IH [OF rec] show ?thesis by (auto split: if_splits)
  qed
qed

lemma get_rarest_piece_member:
  "candidates \<noteq> [] \<Longrightarrow> \<exists>c. get_rarest_piece rnd candidates = Some c \<and> c \<in> set candidates"
  by (simp add: get_rarest_piece_def)

lemma get_rarest_piece_any:
  assumes "c \<in> set candidates"
  shows "\<exists>rnd. get_rarest_piece rnd candidates = Some c"
proof -
  from assms obtain k where k: "k < length candidates" "candidates ! k = c"
    by (auto simp: in_set_conv_nth)
  then have "get_rarest_piece k candidates = Some c"
    using assms by (auto simp: get_rarest_piece_def)
  then show ?thesis ..
qed

lemma ex_small_next:
  "get_next_request rnd [True, True] ex_small =
     Inr (Some 1, ex_small\<lparr>requested_pieces := {0, 1}\<rparr>)"
  by (simp add: get_next_request_def ex_small_def is_candidate_def upt_conv_Cons
        get_rarest_piece_def insert_commute)

text \<open>
  C2. When the manager's \<^verbatim>\<open>have_pieces\<close> has \<^verbatim>\<open>piece_count\<close> entries, as the
  constructor makes it, and the availability list has at least as many,
  \<^verbatim>\<open>get_next_request\<close> raises nothing. It returns None exactly when no index below
  \<^verbatim>\<open>piece_count\<close> is at once not held, not requested and available at the peer, and
  then the manager is unchanged. Otherwise it returns such an index, and the manager
  differs from the old one only in having that index in \<^verbatim>\<open>requested_pieces\<close>.
\<close>

theorem get_next_request_spec:
  assumes "length (have_pieces s) = piece_count s" and "piece_count s \<le> length peer"
  shows "\<exists>res s'. get_next_request rnd peer s = Inr (res, s') \<and>
           (res = None \<longleftrightarrow>
              \<not> (\<exists>i<piece_count s. \<not> have_pieces s ! i \<and> i \<notin> requested_pieces s \<and> peer ! i)) \<and>
           (case res of
              None \<Rightarrow> s' = s
            | Some i \<Rightarrow> i < piece_count s \<and> \<not> have_pieces s ! i \<and> i \<notin> requested_pieces s \<and> peer ! i \<and>
                s' = s\<lparr>requested_pieces := insert i (requested_pieces s)\<rparr>)"
proof -
  let ?P = "\<lambda>i. \<not> have_pieces s ! i \<and> i \<notin> requested_pieces s \<and> peer ! i"
  let ?cands = "filter ?P [0..<piece_count s]"
  have coll: "collect_candidates s peer [0..<piece_count s] [] = Inr ?cands"
    using assms collect_candidates_filter [of "[0..<piece_count s]" s peer "[]"] by simp
  have empty_iff: "?cands = [] \<longleftrightarrow> \<not> (\<exists>i<piece_count s. ?P i)"
    by (auto simp: filter_empty_conv)
  show ?thesis
  proof (cases "?cands = []")
    case True
    then show ?thesis using coll empty_iff by (simp add: get_next_request_def)
  next
    case False
    then obtain c where c: "get_rarest_piece rnd ?cands = Some c" "c \<in> set ?cands"
      using get_rarest_piece_member by blast
    then have "c < piece_count s \<and> ?P c" by simp
    then show ?thesis using coll False c(1) empty_iff by (simp add: get_next_request_def)
  qed
qed

text \<open>C2, at \<open>ex_small\<close> and a peer that has both pieces: piece 1 is handed out.\<close>

theorem get_next_request_spec_witness:
  "length (have_pieces ex_small) = piece_count ex_small \<and>
   piece_count ex_small \<le> length [True, True] \<and>
   get_next_request 0 [True, True] ex_small =
     Inr (Some 1, ex_small\<lparr>requested_pieces := {0, 1}\<rparr>)"
proof -
  have h1: "length (have_pieces ex_small) = piece_count ex_small"
    by (simp add: ex_small_def)
  have h2: "piece_count ex_small \<le> length [True, True]"
    by (simp add: ex_small_def)
  from get_next_request_spec [OF h1 h2, of 0] ex_small_next [of 0] h1 h2
  show ?thesis by simp
qed

lemma get_next_request_draw:
  assumes "length (have_pieces s) = piece_count s" and "piece_count s \<le> length peer"
    and "candidates =
           filter (\<lambda>i. \<not> have_pieces s ! i \<and> i \<notin> requested_pieces s \<and> peer ! i) [0..<piece_count s]"
    and "candidates \<noteq> []"
  shows "get_next_request rnd peer s =
           Inr (Some (candidates ! (rnd mod length candidates)),
                s\<lparr>requested_pieces :=
                    insert (candidates ! (rnd mod length candidates)) (requested_pieces s)\<rparr>)"
proof -
  have "collect_candidates s peer [0..<piece_count s] [] = Inr candidates"
    using assms(1-3) collect_candidates_filter [of "[0..<piece_count s]" s peer "[]"] by simp
  then show ?thesis
    using assms(4) by (simp add: get_next_request_def get_rarest_piece_def)
qed

lemma ex_candidates:
  "filter (\<lambda>i. \<not> have_pieces (ex_small\<lparr>requested_pieces := {}\<rparr>) ! i \<and>
              i \<notin> requested_pieces (ex_small\<lparr>requested_pieces := {}\<rparr>) \<and> [True, True] ! i)
     [0..<piece_count (ex_small\<lparr>requested_pieces := {}\<rparr>)] = [0, 1]"
  by (simp add: ex_small_def upt_conv_Cons)

text \<open>
  C3, as amended. Let the candidates be the indices below \<^verbatim>\<open>piece_count\<close> that are
  not held, not requested and available at the peer, in increasing order, and let there
  be at least one. Then \<^verbatim>\<open>get_next_request\<close> returns the candidate at the position
  drawn by \<^verbatim>\<open>random.choice\<close>, which is what \<^verbatim>\<open>get_rarest_piece\<close> returns, and
  marks it requested; and for every candidate there is a draw for which
  \<^verbatim>\<open>get_next_request\<close> returns that candidate. How many sessions hold a piece is
  not an input of either function.
\<close>

theorem get_next_request_random_choice:
  assumes "length (have_pieces s) = piece_count s" and "piece_count s \<le> length peer"
    and "candidates =
           filter (\<lambda>i. \<not> have_pieces s ! i \<and> i \<notin> requested_pieces s \<and> peer ! i) [0..<piece_count s]"
    and "candidates \<noteq> []"
  shows "candidates ! (rnd mod length candidates) \<in> set candidates \<and>
         get_rarest_piece rnd candidates = Some (candidates ! (rnd mod length candidates)) \<and>
         get_next_request rnd peer s =
           Inr (Some (candidates ! (rnd mod length candidates)),
                s\<lparr>requested_pieces :=
                    insert (candidates ! (rnd mod length candidates)) (requested_pieces s)\<rparr>) \<and>
         (\<forall>c\<in>set candidates. \<exists>r.
            get_rarest_piece r candidates = Some c \<and>
            get_next_request r peer s =
              Inr (Some c, s\<lparr>requested_pieces := insert c (requested_pieces s)\<rparr>))"
proof -
  have every: "\<exists>r. get_rarest_piece r candidates = Some c \<and>
            get_next_request r peer s =
              Inr (Some c, s\<lparr>requested_pieces := insert c (requested_pieces s)\<rparr>)"
    if "c \<in> set candidates" for c
  proof -
    from that obtain k where k: "k < length candidates" "candidates ! k = c"
      by (auto simp: in_set_conv_nth)
    have "get_rarest_piece k candidates = Some c"
      using k assms(4) by (simp add: get_rarest_piece_def)
    moreover have "get_next_request k peer s =
              Inr (Some c, s\<lparr>requested_pieces := insert c (requested_pieces s)\<rparr>)"
      using get_next_request_draw [OF assms, of k] k by simp
    ultimately show ?thesis by blast
  qed
  have "candidates ! (rnd mod length candidates) \<in> set candidates"
    using assms(4) by simp
  moreover have "get_rarest_piece rnd candidates = Some (candidates ! (rnd mod length candidates))"
    using assms(4) by (simp add: get_rarest_piece_def)
  ultimately show ?thesis
    using get_next_request_draw [OF assms, of rnd] every by blast
qed

text \<open>
  C3, as amended, at \<open>ex_small\<close> with nothing requested and a peer that has both
  pieces: the draw 1 hands out piece 1, the draw 0 piece 0.
\<close>

theorem get_next_request_random_choice_witness:
  "length (have_pieces (ex_small\<lparr>requested_pieces := {}\<rparr>)) =
     piece_count (ex_small\<lparr>requested_pieces := {}\<rparr>) \<and>
   piece_count (ex_small\<lparr>requested_pieces := {}\<rparr>) \<le> length [True, True] \<and>
   [0, 1 :: nat] \<noteq> [] \<and>
   get_next_request 1 [True, True] (ex_small\<lparr>requested_pieces := {}\<rparr>) =
     Inr (Some 1, ex_small\<lparr>requested_pieces := {1}\<rparr>) \<and>
   get_next_request 0 [True, True] (ex_small\<lparr>requested_pieces := {}\<rparr>) =
     Inr (Some 0, ex_small\<lparr>requested_pieces := {0}\<rparr>)"
proof -
  let ?s = "ex_small\<lparr>requested_pieces := {}\<rparr>"
  have h: "length (have_pieces ?s) = piece_count ?s" "piece_count ?s \<le> length [True, True]"
    by (simp_all add: ex_small_def)
  have ne: "[0, 1 :: nat] \<noteq> []" by simp
  have upd: "?s\<lparr>requested_pieces := insert c (requested_pieces ?s)\<rparr> =
               ex_small\<lparr>requested_pieces := {c}\<rparr>" for c
    by simp
  note t = get_next_request_random_choice [OF h ex_candidates [symmetric] ne]
  have one: "get_next_request 1 [True, True] ?s = Inr (Some 1, ex_small\<lparr>requested_pieces := {1}\<rparr>)"
    using t [of 1] by (simp add: upd)
  have zero: "get_next_request 0 [True, True] ?s = Inr (Some 0, ex_small\<lparr>requested_pieces := {0}\<rparr>)"
    using t [of 0] by (simp add: upd)
  from h ne one zero show ?thesis by blast
qed

text \<open>
  C3 as stated fails. Two sessions, piece 0 held by both and piece 1 by one of them, so
  piece 1 is the rarer candidate; with the draw 0 the policy hands out piece 0.
\<close>

theorem rarest_first_counterexample:
  "rarity [[True, False], [True, True]] 1 < rarity [[True, False], [True, True]] 0 \<and>
   get_rarest_piece 0 [0, 1] = Some 0 \<and>
   get_next_request 0 [True, True] (ex_small\<lparr>requested_pieces := {}\<rparr>) =
     Inr (Some 0, ex_small)"
  by (simp add: rarity_def get_rarest_piece_def get_next_request_def ex_small_def
        is_candidate_def upt_conv_Cons)

section \<open>Receiving a piece\<close>

lemma ex_final_accepts:
  "receive_piece IoOk IoOk ex_final 1 [0x61, 0x62] =
     (True, ex_final\<lparr>have_pieces := [True, True], requested_pieces := {},
                     bytes_downloaded := 6, piece_files := [(1, [0x61, 0x62])]\<rparr>)"
  by (simp add: receive_piece_def verify_piece_def ex_final_def sha1_ab Let_def)

lemma ex_small_oversized:
  "receive_piece IoOk IoOk ex_small 0 [0x61, 0x62] = (False, ex_small)"
  by (simp add: receive_piece_def ex_small_def)

lemma ex_final_mismatch:
  "sha1_hexdigest [0x61, 0x62] \<noteq> piece_hashes ex_final ! 0"
  by (simp add: sha1_ab ex_final_def)

text \<open>
  C1, as amended. With hashes set and an entry for \<open>i\<close>: \<^verbatim>\<open>receive_piece\<close> returns True
  only when the SHA-1 digest of the data equals \<^verbatim>\<open>piece_hashes[i]\<close>, and then the piece
  was written, \<^verbatim>\<open>have_pieces[i]\<close> is set and \<open>i\<close> is not requested. When the digest
  differs and the data is no longer than \<^verbatim>\<open>piece_length\<close>, it returns False and only
  removes \<open>i\<close> from \<^verbatim>\<open>requested_pieces\<close>. When the data is longer than
  \<^verbatim>\<open>piece_length\<close>, it returns False and changes nothing.
\<close>

theorem receive_piece_verified:
  assumes "piece_hashes s \<noteq> []" and "i < length (piece_hashes s)"
  shows "(fst (receive_piece wr asm s i data) \<longrightarrow>
            sha1_hexdigest data = piece_hashes s ! i \<and> i < length (have_pieces s) \<and>
            have_pieces (snd (receive_piece wr asm s i data)) ! i \<and>
            i \<notin> requested_pieces (snd (receive_piece wr asm s i data)) \<and>
            piece_files (snd (receive_piece wr asm s i data)) = piece_files s @ [(i, data)]) \<and>
         (sha1_hexdigest data \<noteq> piece_hashes s ! i \<and> int (length data) \<le> piece_length s \<longrightarrow>
            receive_piece wr asm s i data =
              (False, s\<lparr>requested_pieces := requested_pieces s - {i}\<rparr>)) \<and>
         (int (length data) > piece_length s \<longrightarrow> receive_piece wr asm s i data = (False, s))"
  using assms by (auto simp: receive_piece_def verify_piece_def Let_def)

text \<open>
  C1, as amended, at \<open>ex_final\<close>: the two bytes \<^verbatim>\<open>ab\<close> are accepted as piece 1 and
  rejected as piece 0.
\<close>

theorem receive_piece_verified_witness:
  "piece_hashes ex_final \<noteq> [] \<and> 1 < length (piece_hashes ex_final) \<and>
   fst (receive_piece IoOk IoOk ex_final 1 [0x61, 0x62]) \<and>
   sha1_hexdigest [0x61, 0x62] = piece_hashes ex_final ! 1 \<and>
   have_pieces (snd (receive_piece IoOk IoOk ex_final 1 [0x61, 0x62])) ! 1 \<and>
   0 < length (piece_hashes ex_final) \<and>
   sha1_hexdigest [0x61, 0x62] \<noteq> piece_hashes ex_final ! 0 \<and>
   int (length [0x61, 0x62 :: byte]) \<le> piece_length ex_final \<and>
   receive_piece IoOk IoOk ex_final 0 [0x61, 0x62] =
     (False, ex_final\<lparr>requested_pieces := requested_pieces ex_final - {0}\<rparr>)"
proof -
  have h: "piece_hashes ex_final \<noteq> []" "1 < length (piece_hashes ex_final)"
    "0 < length (piece_hashes ex_final)" "int (length [0x61, 0x62 :: byte]) \<le> piece_length ex_final"
    by (simp_all add: ex_final_def)
  have acc: "fst (receive_piece IoOk IoOk ex_final 1 [0x61, 0x62])"
    using ex_final_accepts by simp
  from h acc ex_final_mismatch
    receive_piece_verified [OF h(1) h(2), where wr = IoOk and asm = IoOk and data = "[0x61, 0x62]"]
    receive_piece_verified [OF h(1) h(3), where wr = IoOk and asm = IoOk and data = "[0x61, 0x62]"]
  show ?thesis by blast
qed

text \<open>
  C1 as stated fails. At \<open>ex_small\<close> the two bytes \<^verbatim>\<open>ab\<close> arrive for piece 0, whose
  hash is another one; they are longer than a piece, the size check returns first, and
  piece 0 stays requested.
\<close>

theorem receive_piece_oversized_counterexample:
  "piece_hashes ex_small \<noteq> [] \<and> 0 < length (piece_hashes ex_small) \<and>
   sha1_hexdigest [0x61, 0x62] \<noteq> piece_hashes ex_small ! 0 \<and>
   receive_piece IoOk IoOk ex_small 0 [0x61, 0x62] = (False, ex_small) \<and>
   0 \<in> requested_pieces (snd (receive_piece IoOk IoOk ex_small 0 [0x61, 0x62]))"
  using ex_small_oversized by (simp add: ex_small_def sha1_ab)

text \<open>
  C4, as amended. The only length check of \<^verbatim>\<open>receive_piece\<close> is against
  \<^verbatim>\<open>piece_length\<close>, for every index: longer data is refused with the manager
  unchanged, data is accepted only when it is no longer than \<^verbatim>\<open>piece_length\<close>, and
  data of any such length is accepted when it passes verification, the index is in range
  and neither the write nor the assembly raises.
\<close>

theorem receive_piece_length_check:
  "(int (length data) > piece_length s \<longrightarrow> receive_piece wr asm s i data = (False, s)) \<and>
   (fst (receive_piece wr asm s i data) \<longrightarrow> int (length data) \<le> piece_length s) \<and>
   (int (length data) \<le> piece_length s \<and> verify_piece s i data \<and> wr = IoOk \<and> asm = IoOk \<and>
      i < length (have_pieces s) \<longrightarrow> fst (receive_piece wr asm s i data))"
  by (auto simp: receive_piece_def Let_def)

text \<open>C4, as amended, at \<open>ex_small\<close> (refused) and \<open>ex_final\<close> (accepted).\<close>

theorem receive_piece_length_check_witness:
  "int (length [0x61, 0x62 :: byte]) > piece_length ex_small \<and>
   receive_piece IoOk IoOk ex_small 0 [0x61, 0x62] = (False, ex_small) \<and>
   int (length [0x61, 0x62 :: byte]) \<le> piece_length ex_final \<and>
   verify_piece ex_final 1 [0x61, 0x62] \<and> 1 < length (have_pieces ex_final) \<and>
   fst (receive_piece IoOk IoOk ex_final 1 [0x61, 0x62])"
proof -
  have h: "int (length [0x61, 0x62 :: byte]) > piece_length ex_small"
    "int (length [0x61, 0x62 :: byte]) \<le> piece_length ex_final"
    "1 < length (have_pieces ex_final)"
    by (simp_all add: ex_small_def ex_final_def)
  have v: "verify_piece ex_final 1 [0x61, 0x62]"
    by (simp add: verify_piece_def ex_final_def sha1_ab)
  from h v
    receive_piece_length_check [where data = "[0x61, 0x62]" and s = ex_small and wr = IoOk
      and asm = IoOk and i = 0]
    receive_piece_length_check [where data = "[0x61, 0x62]" and s = ex_final and wr = IoOk
      and asm = IoOk and i = 1]
  show ?thesis by blast
qed

text \<open>
  C4 as stated fails. At \<open>ex_final\<close> the final piece should have three bytes; the two
  bytes \<^verbatim>\<open>ab\<close>, whose digest is the expected one, are accepted.
\<close>

theorem final_piece_length_counterexample:
  "last_piece_length ex_final = 3 \<and>
   int (length [0x61, 0x62 :: byte]) \<noteq> last_piece_length ex_final \<and>
   receive_piece IoOk IoOk ex_final 1 [0x61, 0x62] =
     (True, ex_final\<lparr>have_pieces := [True, True], requested_pieces := {},
                     bytes_downloaded := 6, piece_files := [(1, [0x61, 0x62])]\<rparr>)"
  using ex_final_accepts
  by (simp add: last_piece_length_def total_size_def ex_final_def)

section \<open>Held and requested pieces stay apart\<close>

lemma scan_pieces_requested: "requested_pieces (scan_pieces disk idxs s) = requested_pieces s"
  by (induction idxs arbitrary: s) (auto split: option.splits)

lemma fold_scan_requested:
  "requested_pieces (fold (\<lambda>_. scan_pieces disk idxs) fs s) = requested_pieces s"
  by (induction fs arbitrary: s) (auto simp: scan_pieces_requested)

lemma init_requested: "requested_pieces (piece_manager_init plen pcount fs disk sizes) = {}"
  by (simp add: piece_manager_init_def check_existing_data_def Let_def fold_scan_requested)

lemma scan_pieces_length: "length (have_pieces (scan_pieces disk idxs s)) = length (have_pieces s)"
  by (induction idxs arbitrary: s) (auto split: option.splits)

lemma scan_pieces_count: "piece_count (scan_pieces disk idxs s) = piece_count s"
  by (induction idxs arbitrary: s) (auto split: option.splits)

lemma fold_scan_length:
  "length (have_pieces (fold (\<lambda>_. scan_pieces disk idxs) fs s)) = length (have_pieces s)
   \<and> piece_count (fold (\<lambda>_. scan_pieces disk idxs) fs s) = piece_count s"
  by (induction fs arbitrary: s) (auto simp: scan_pieces_length scan_pieces_count)

lemma init_length:
  "length (have_pieces (piece_manager_init plen pcount fs disk sizes)) =
     piece_count (piece_manager_init plen pcount fs disk sizes)"
  by (simp add: piece_manager_init_def check_existing_data_def Let_def fold_scan_length)

lemma init_inv: "disjoint_inv (piece_manager_init plen pcount fs disk sizes)"
  by (simp add: disjoint_inv_def init_requested)

lemma get_next_request_inv:
  assumes "disjoint_inv s" and "get_next_request rnd peer s = Inr (res, s')"
  shows "disjoint_inv s'"
proof (cases "collect_candidates s peer [0..<piece_count s] []")
  case (Inl e)
  with assms(2) show ?thesis by (simp add: get_next_request_def)
next
  case (Inr cands)
  note snd = collect_candidates_sound [OF Inr]
  show ?thesis
  proof (cases "cands = []")
    case True
    with assms Inr show ?thesis by (simp add: get_next_request_def)
  next
    case False
    then obtain c where c: "get_rarest_piece rnd cands = Some c" "c \<in> set cands"
      using get_rarest_piece_member by blast
    with snd have "c < length (have_pieces s) \<and> \<not> have_pieces s ! c" by auto
    moreover have "s' = s\<lparr>requested_pieces := insert c (requested_pieces s)\<rparr>"
      using assms(2) Inr False c(1) by (simp add: get_next_request_def)
    ultimately show ?thesis using assms(1) by (auto simp: disjoint_inv_def)
  qed
qed

lemma receive_piece_inv:
  assumes "disjoint_inv s"
  shows "disjoint_inv (snd (receive_piece wr asm s i data))"
  using assms
  by (auto simp: receive_piece_def disjoint_inv_def Let_def nth_list_update)

lemma ex_small_inv: "disjoint_inv ex_small"
  by (auto simp: disjoint_inv_def ex_small_def less_Suc_eq)

lemma ex_final_inv: "disjoint_inv ex_final"
  by (auto simp: disjoint_inv_def ex_final_def less_Suc_eq)

text \<open>
  C10. No piece is held and requested at once after \<^verbatim>\<open>__init__\<close>, and a manager with
  that property keeps it through \<^verbatim>\<open>get_next_request\<close> and through
  \<^verbatim>\<open>receive_piece\<close>, whatever they are called with and whatever they return.
\<close>

theorem have_requested_disjoint:
  "disjoint_inv (piece_manager_init plen pcount fs disk sizes) \<and>
   (disjoint_inv s \<and> get_next_request rnd peer s = Inr (res, s') \<longrightarrow> disjoint_inv s') \<and>
   (disjoint_inv s \<longrightarrow> disjoint_inv (snd (receive_piece wr asm s i data)))"
  using init_inv get_next_request_inv receive_piece_inv by blast

text \<open>C10, at a fresh manager, at \<open>ex_small\<close> and at \<open>ex_final\<close>.\<close>

theorem have_requested_disjoint_witness:
  "disjoint_inv (piece_manager_init 4 2 [7] (\<lambda>_. None) (\<lambda>_. None)) \<and>
   disjoint_inv ex_small \<and>
   get_next_request 0 [True, True] ex_small = Inr (Some 1, ex_small\<lparr>requested_pieces := {0, 1}\<rparr>) \<and>
   disjoint_inv (ex_small\<lparr>requested_pieces := {0, 1}\<rparr>) \<and>
   disjoint_inv ex_final \<and>
   disjoint_inv (snd (receive_piece IoOk IoOk ex_final 1 [0x61, 0x62]))"
  using ex_small_inv ex_final_inv ex_small_next [of 0]
    have_requested_disjoint [where plen = 4 and pcount = 2 and fs = "[7]" and disk = "\<lambda>_. None"
      and sizes = "\<lambda>_. None" and s = ex_small and rnd = 0 and peer = "[True, True]"
      and res = "Some 1" and s' = "ex_small\<lparr>requested_pieces := {0, 1}\<rparr>"
      and wr = IoOk and asm = IoOk and i = 1 and data = "[0x61, 0x62]"]
    have_requested_disjoint [where plen = 4 and pcount = 2 and fs = "[7]" and disk = "\<lambda>_. None"
      and sizes = "\<lambda>_. None" and s = ex_final and rnd = 0 and peer = "[True, True]"
      and res = None and s' = ex_final
      and wr = IoOk and asm = IoOk and i = 1 and data = "[0x61, 0x62]"]
  by blast

section \<open>The handshake\<close>

lemma close_flags: "\<not> connected (close c) \<and> \<not> socket_open (close c)"
  by (simp add: close_def)

lemma ex_fromhex:
  "fromhex ''da23614e02469a0d7c7bd1bdab5c9c474b1904dc'' =
     Some [0xda, 0x23, 0x61, 0x4e, 0x02, 0x46, 0x9a, 0x0d, 0x7c, 0x7b,
           0xd1, 0xbd, 0xab, 0x5c, 0x9c, 0x47, 0x4b, 0x19, 0x04, 0xdc]"
  by (simp add: hex_val_def is_space_def)

lemma ex_hex:
  "bytes_hex [0xda, 0x23, 0x61, 0x4e, 0x02, 0x46, 0x9a, 0x0d, 0x7c, 0x7b,
           0xd1, 0xbd, 0xab, 0x5c, 0x9c, 0x47, 0x4b, 0x19, 0x04, 0xdc] =
     ''da23614e02469a0d7c7bd1bdab5c9c474b1904dc''"
  by (simp add: bytes_hex_def hex_byte_def hex_digit_def)

lemma ex_frame_length:
  "length (handshake_frame [0xda, 0x23, 0x61, 0x4e, 0x02, 0x46, 0x9a, 0x0d, 0x7c, 0x7b,
           0xd1, 0xbd, 0xab, 0x5c, 0x9c, 0x47, 0x4b, 0x19, 0x04, 0xdc] bs) = 48 + length bs"
  by (simp add: handshake_frame_def ascii_bytes_def)

lemma ex_conn_fields:
  "info_hash ex_conn = HashStr ''da23614e02469a0d7c7bd1bdab5c9c474b1904dc''"
  "length (our_peer_id ex_conn) = 20"
  "\<not> connected ex_conn"
  by (simp_all add: ex_conn_def ascii_bytes_def)

lemma ex_response_fields:
  "ex_response \<noteq> []"
  "take 20 (drop 28 ex_response) =
     [0xda, 0x23, 0x61, 0x4e, 0x02, 0x46, 0x9a, 0x0d, 0x7c, 0x7b,
      0xd1, 0xbd, 0xab, 0x5c, 0x9c, 0x47, 0x4b, 0x19, 0x04, 0xdc]"
  "hd ex_response = 0"
  by (simp_all add: ex_response_def)

lemma ex_response_pstr:
  "hd ex_response \<noteq> of_nat (length ''BitTorrent protocol'') \<and>
   take 19 (drop 1 ex_response) \<noteq> ascii_bytes ''BitTorrent protocol''"
  by (simp add: ex_response_def ascii_bytes_def)

lemma ex_env_fields:
  "tcp_connect ex_env = IoOk" "send_handshake ex_env = IoOk" "send_message_io ex_env = IoOk"
  "read_exactly ex_env 68 = Some ex_response"
  by (simp_all add: ex_env_def)

lemma ex_fingerprint: "fingerprint_matches ex_env ex_conn"
proof -
  have a: "info_hash_bytes ex_conn =
     Some [0xda, 0x23, 0x61, 0x4e, 0x02, 0x46, 0x9a, 0x0d, 0x7c, 0x7b,
           0xd1, 0xbd, 0xab, 0x5c, 0x9c, 0x47, 0x4b, 0x19, 0x04, 0xdc]"
    unfolding info_hash_bytes_def ex_conn_fields(1) by (simp only: info_hash_repr.case ex_fromhex)
  have b: "info_hash_hex ex_conn = ''da23614e02469a0d7c7bd1bdab5c9c474b1904dc''"
    unfolding info_hash_hex_def ex_conn_fields(1) by (simp only: info_hash_repr.case)
  show ?thesis
    unfolding fingerprint_matches_def a b option.case ex_frame_length ex_conn_fields(2)
    by (simp add: ex_env_fields ex_response_fields ex_hex)
qed

lemma ex_handshake:
  "perform_handshake ex_env (ex_conn\<lparr>socket_open := True\<rparr>) = Inr ''-PY0001-000000000009''"
proof -
  have a: "info_hash_bytes (ex_conn\<lparr>socket_open := True\<rparr>) =
     Some [0xda, 0x23, 0x61, 0x4e, 0x02, 0x46, 0x9a, 0x0d, 0x7c, 0x7b,
           0xd1, 0xbd, 0xab, 0x5c, 0x9c, 0x47, 0x4b, 0x19, 0x04, 0xdc]"
    by (simp add: info_hash_bytes_def ex_conn_fields(1) ex_fromhex del: fromhex.simps)
  have b: "info_hash_hex (ex_conn\<lparr>socket_open := True\<rparr>) = ''da23614e02469a0d7c7bd1bdab5c9c474b1904dc''"
    by (simp add: info_hash_hex_def ex_conn_fields(1))
  have l: "length (our_peer_id (ex_conn\<lparr>socket_open := True\<rparr>)) = 20"
    by (simp add: ex_conn_fields(2))
  have d: "decode_replace ex_env (take 20 (drop 48 ex_response)) = ''-PY0001-000000000009''"
    by (simp add: ex_env_def ex_response_def ascii_bytes_def char_of_def bit_0)
  have r: "read_exactly ex_env (48 + 20) = Some ex_response"
    using ex_env_fields(4) by simp
  show ?thesis
    unfolding perform_handshake_def a option.case Let_def ex_frame_length l r
      ex_env_fields(2) ex_response_fields(2) ex_hex b d
    using ex_response_fields(1) by simp
qed

lemma ex_connect:
  "connect ex_env ex_conn =
     Some (True, ex_conn\<lparr>socket_open := True, connected := True, am_interested := True,
                         conn_log := [WarnPeerIdDiffers]\<rparr>)"
proof -
  have p: "peer_id (ex_conn\<lparr>socket_open := True\<rparr>) = ''-PY0001-000000000002''"
    "conn_log (ex_conn\<lparr>socket_open := True\<rparr>) = []"
    by (simp_all add: ex_conn_def)
  show ?thesis
    unfolding connect_def ex_handshake Let_def sum.case p
    by (simp add: ex_env_fields ex_conn_fields(3) send_interested_def send_message_def)
qed

lemma ex_info_hash:
  "info_hash_bytes (ex_conn\<lparr>peer_id := p\<rparr>) =
     Some [0xda, 0x23, 0x61, 0x4e, 0x02, 0x46, 0x9a, 0x0d, 0x7c, 0x7b,
           0xd1, 0xbd, 0xab, 0x5c, 0x9c, 0x47, 0x4b, 0x19, 0x04, 0xdc]"
  "info_hash_hex (ex_conn\<lparr>peer_id := p\<rparr>) = ''da23614e02469a0d7c7bd1bdab5c9c474b1904dc''"
  "length (our_peer_id (ex_conn\<lparr>peer_id := p\<rparr>)) = 20"
  by (simp_all add: info_hash_bytes_def info_hash_hex_def ex_conn_fields ex_fromhex
        del: fromhex.simps)

lemma ex_received_frame: "received_frame ex_env (ex_conn\<lparr>peer_id := p\<rparr>) = Some ex_response"
  unfolding received_frame_def ex_info_hash option.case ex_frame_length
  using ex_env_fields(4) by simp

lemma ex_fingerprint_any: "fingerprint_matches ex_env (ex_conn\<lparr>peer_id := p\<rparr>)"
  unfolding fingerprint_matches_def ex_info_hash option.case ex_frame_length
  by (simp add: ex_env_fields ex_response_fields ex_hex)

lemma ex_decoded:
  "decode_replace ex_env (take 20 (drop 48 ex_response)) = ''-PY0001-000000000009''"
  by (simp add: ex_env_def ex_response_def ascii_bytes_def char_of_def bit_0)

lemma ex_conn_self: "ex_conn\<lparr>peer_id := ''-PY0001-000000000002''\<rparr> = ex_conn"
  by (simp add: ex_conn_def)

text \<open>
  C5, as amended. For a session that is not yet connected, when \<^verbatim>\<open>socket.connect\<close> and
  the two \<^verbatim>\<open>sendall\<close> calls succeed: \<^verbatim>\<open>connect\<close> returns True with the session
  connected exactly when the frame read back is not empty and its fingerprint field
  (bytes 28 to 47), in hexadecimal, equals the local \<^verbatim>\<open>info_hash\<close>; the length byte
  and the protocol string of the frame are not looked at. The session is then the old
  one with the socket open, \<^verbatim>\<open>connected\<close> and \<^verbatim>\<open>am_interested\<close> set, and a log
  that has one more entry, the warning, exactly when the peer id decoded from bytes 48
  to 67 of the frame differs from the expected one. In every other case \<^verbatim>\<open>connect\<close>
  returns False with the session not connected and its socket closed.
\<close>

theorem connect_established:
  assumes "\<not> connected c" and "tcp_connect env = IoOk" and "send_handshake env = IoOk"
    and "send_message_io env = IoOk"
  shows "(fingerprint_matches env c \<longrightarrow>
            (\<exists>response c'. received_frame env c = Some response \<and>
                  connect env c = Some (True, c') \<and> connected c' \<and> socket_open c' \<and>
                  conn_log c' =
                    (if decode_replace env (take 20 (drop 48 response)) \<noteq> peer_id c
                     then conn_log c @ [WarnPeerIdDiffers] else conn_log c) \<and>
                  c' = c\<lparr>socket_open := True, connected := True, am_interested := True,
                         conn_log := conn_log c'\<rparr>)) \<and>
         (\<not> fingerprint_matches env c \<longrightarrow>
            (\<exists>c'. connect env c = Some (False, c') \<and> \<not> connected c' \<and> \<not> socket_open c'))"
  using assms
  by (auto simp: connect_def perform_handshake_def fingerprint_matches_def received_frame_def
        Let_def send_interested_def send_message_def close_def info_hash_bytes_def
        info_hash_hex_def
      split: option.splits info_hash_repr.splits)

text \<open>
  C5, as amended, at \<open>ex_conn\<close> on \<open>ex_env\<close>: established with the warning, since
  the frame carries another peer id; established without a warning when the expected
  peer id is the one in the frame; failed and closed when no frame comes back.
\<close>

theorem connect_established_witness:
  "\<not> connected ex_conn \<and> tcp_connect ex_env = IoOk \<and> send_handshake ex_env = IoOk \<and>
   send_message_io ex_env = IoOk \<and> fingerprint_matches ex_env ex_conn \<and>
   decode_replace ex_env (take 20 (drop 48 ex_response)) \<noteq> peer_id ex_conn \<and>
   (\<exists>c'. connect ex_env ex_conn = Some (True, c') \<and> connected c' \<and> socket_open c' \<and>
         conn_log c' = [WarnPeerIdDiffers]) \<and>
   \<not> connected (ex_conn\<lparr>peer_id := ''-PY0001-000000000009''\<rparr>) \<and>
   fingerprint_matches ex_env (ex_conn\<lparr>peer_id := ''-PY0001-000000000009''\<rparr>) \<and>
   decode_replace ex_env (take 20 (drop 48 ex_response)) =
     peer_id (ex_conn\<lparr>peer_id := ''-PY0001-000000000009''\<rparr>) \<and>
   (\<exists>c'. connect ex_env (ex_conn\<lparr>peer_id := ''-PY0001-000000000009''\<rparr>) = Some (True, c') \<and>
         connected c' \<and> socket_open c' \<and> conn_log c' = []) \<and>
   \<not> fingerprint_matches (ex_env\<lparr>read_exactly := \<lambda>n. None\<rparr>) ex_conn \<and>
   (\<exists>c'. connect (ex_env\<lparr>read_exactly := \<lambda>n. None\<rparr>) ex_conn = Some (False, c') \<and>
         \<not> connected c' \<and> \<not> socket_open c')"
proof -
  let ?same = "ex_conn\<lparr>peer_id := ''-PY0001-000000000009''\<rparr>"
  have pid: "decode_replace ex_env (take 20 (drop 48 ex_response)) \<noteq> peer_id ex_conn"
    "decode_replace ex_env (take 20 (drop 48 ex_response)) = peer_id ?same"
    by (simp_all add: ex_decoded ex_conn_def)
  have nc: "\<not> connected ?same" and lg: "conn_log ex_conn = []" "conn_log ?same = []"
    by (simp_all add: ex_conn_def)
  have rf: "received_frame ex_env ex_conn = Some ex_response"
    using ex_received_frame [of "''-PY0001-000000000002''"] by (simp only: ex_conn_self)
  have n: "\<not> fingerprint_matches (ex_env\<lparr>read_exactly := \<lambda>n. None\<rparr>) ex_conn"
    by (simp add: fingerprint_matches_def split: option.splits)
  have e: "tcp_connect (ex_env\<lparr>read_exactly := \<lambda>n. None\<rparr>) = IoOk"
    "send_handshake (ex_env\<lparr>read_exactly := \<lambda>n. None\<rparr>) = IoOk"
    "send_message_io (ex_env\<lparr>read_exactly := \<lambda>n. None\<rparr>) = IoOk"
    by (simp_all add: ex_env_fields)
  have a: "\<exists>c'. connect ex_env ex_conn = Some (True, c') \<and> connected c' \<and> socket_open c' \<and>
         conn_log c' = [WarnPeerIdDiffers]"
    using connect_established [OF ex_conn_fields(3) ex_env_fields(1) ex_env_fields(2) ex_env_fields(3)]
      ex_fingerprint rf pid(1) lg(1) by auto
  have b: "\<exists>c'. connect ex_env ?same = Some (True, c') \<and> connected c' \<and> socket_open c' \<and>
         conn_log c' = []"
    using connect_established [OF nc ex_env_fields(1) ex_env_fields(2) ex_env_fields(3)]
      ex_fingerprint_any [of "''-PY0001-000000000009''"]
      ex_received_frame [of "''-PY0001-000000000009''"] pid(2) lg(2) by auto
  have c: "\<exists>c'. connect (ex_env\<lparr>read_exactly := \<lambda>n. None\<rparr>) ex_conn = Some (False, c') \<and>
         \<not> connected c' \<and> \<not> socket_open c'"
    using connect_established [OF ex_conn_fields(3) e] n by blast
  from a b c pid nc n ex_fingerprint ex_fingerprint_any [of "''-PY0001-000000000009''"]
    ex_conn_fields(3) ex_env_fields(1) ex_env_fields(2) ex_env_fields(3)
  show ?thesis by blast
qed

text \<open>
  C5 as stated fails. The frame \<open>ex_response\<close> starts with the length byte 0 and a
  protocol string of zero bytes, and carries the right fingerprint and another peer id:
  \<^verbatim>\<open>connect\<close> returns True and the session is connected, with one warning logged.
\<close>

theorem handshake_pstr_counterexample:
  "hd ex_response \<noteq> of_nat (length ''BitTorrent protocol'') \<and>
   take 19 (drop 1 ex_response) \<noteq> ascii_bytes ''BitTorrent protocol'' \<and>
   connect ex_env ex_conn =
     Some (True, ex_conn\<lparr>socket_open := True, connected := True, am_interested := True,
                         conn_log := [WarnPeerIdDiffers]\<rparr>)"
  using ex_connect ex_response_pstr by blast

section \<open>Dispatching choke and bitfield\<close>

text \<open>
  C6, as amended. Dispatching message id 0 returns to the loop with
  \<^verbatim>\<open>peer_choking\<close> true and everything else as it was: the request queue of the
  session is unchanged, and so is the piece manager.
\<close>

theorem dispatch_choke:
  "dispatch send_io wr asm disk 0 payload (c, pm) = Some (Continue, c\<lparr>peer_choking := True\<rparr>, pm) \<and>
   peer_choking (c\<lparr>peer_choking := True\<rparr>) \<and>
   request_queue (c\<lparr>peer_choking := True\<rparr>) = request_queue c"
  by (simp add: dispatch_def)

text \<open>
  C6 as stated fails. At \<open>ex_session\<close>, which has one request queued, the queue is
  the same after the choke message.
\<close>

theorem choke_queue_counterexample:
  "request_queue ex_session = [(1, 0, 1)] \<and>
   dispatch IoOk IoOk IoOk (\<lambda>_. None) 0 [] (ex_session, ex_small) =
     Some (Continue, ex_session\<lparr>peer_choking := True\<rparr>, ex_small) \<and>
   request_queue (ex_session\<lparr>peer_choking := True\<rparr>) \<noteq> []"
  by (simp add: dispatch_def ex_session_def)

lemma bit_test: "(drop_bit n w AND 1 \<noteq> 0) = bit w n" for w :: byte
  by (simp add: and_one_eq bit_iff_odd_drop_bit mod_2_eq_odd)

lemma bitfield_loop_spec:
  assumes "\<forall>i\<in>set idxs. i div 8 < length payload"
  shows "length (bitfield_loop payload idxs bf) = length bf \<and>
         (\<forall>j<length bf. bitfield_loop payload idxs bf ! j =
            (bf ! j \<or> (j \<in> set idxs \<and> bit (payload ! (j div 8)) (7 - j mod 8))))"
  using assms
proof (induction idxs arbitrary: bf)
  case Nil
  then show ?case by simp
next
  case (Cons i rest)
  let ?bf = "if bit (payload ! (i div 8)) (7 - i mod 8) then bf[i := True] else bf"
  have step: "bitfield_loop payload (i # rest) bf = bitfield_loop payload rest ?bf"
    using Cons.prems by (simp add: Let_def bit_test)
  have ih: "length (bitfield_loop payload rest ?bf) = length ?bf \<and>
         (\<forall>j<length ?bf. bitfield_loop payload rest ?bf ! j =
            (?bf ! j \<or> (j \<in> set rest \<and> bit (payload ! (j div 8)) (7 - j mod 8))))"
    using Cons.IH [of ?bf] Cons.prems by simp
  have upd: "?bf ! j = (bf ! j \<or> (j = i \<and> bit (payload ! (j div 8)) (7 - j mod 8)))"
    if "j < length bf" for j
    using that by (cases "j = i") auto
  have len: "length ?bf = length bf" by simp
  show ?case
    unfolding step using ih upd len by auto
qed

lemma process_bitfield_merges:
  assumes "(length (peer_bitfield c) + 7) div 8 \<le> length payload"
  shows "length (peer_bitfield (process_bitfield payload c)) = length (peer_bitfield c) \<and>
         (\<forall>i<length (peer_bitfield c).
            peer_bitfield (process_bitfield payload c) ! i =
              (peer_bitfield c ! i \<or> bit (payload ! (i div 8)) (7 - i mod 8)))"
proof -
  have "\<forall>i\<in>set [0..<length (peer_bitfield c)]. i div 8 < length payload"
    using assms by auto
  from bitfield_loop_spec [OF this, of "peer_bitfield c"] assms
  show ?thesis by (simp add: process_bitfield_def Let_def)
qed

lemma send_interested_bitfield:
  "send_interested IoOk c = Some (r, c') \<Longrightarrow> peer_bitfield c' = peer_bitfield c"
  by (auto simp: send_interested_def send_message_def split: if_splits)

lemma send_interested_total: "\<exists>r c'. send_interested IoOk c = Some (r, c')"
  by (auto simp: send_interested_def send_message_def)

lemma dispatch_bitfield_map:
  "\<exists>step c'. dispatch IoOk wr asm disk 5 payload (c, pm) = Some (step, c', pm) \<and>
           peer_bitfield c' = peer_bitfield (process_bitfield payload c)"
proof -
  let ?c1 = "process_bitfield payload c"
  obtain r c2 where s: "send_interested IoOk ?c1 = Some (r, c2)"
    using send_interested_total by blast
  note b = send_interested_bitfield [OF s]
  show ?thesis
  proof (cases "needs_any (have_pieces pm) (enumerate 0 (peer_bitfield ?c1))")
    case (Inl e)
    then show ?thesis by (simp add: dispatch_def Let_def close_def)
  next
    case (Inr needed)
    then show ?thesis using s b by (simp add: dispatch_def Let_def)
  qed
qed

lemma ex_conn_bitfield:
  "dispatch IoOk IoOk IoOk (\<lambda>_. None) 5 [0x40] (ex_conn, ex_small) =
     Some (Continue, ex_conn\<lparr>peer_bitfield := [False, True]\<rparr>, ex_small)"
  by (simp add: dispatch_def process_bitfield_def ex_conn_def ex_small_def Let_def
        upt_conv_Cons send_interested_def send_message_def)

lemma ex_session_bitfield:
  "dispatch IoOk IoOk IoOk (\<lambda>_. None) 5 [0x40] (ex_session, ex_small) =
     Some (Continue, ex_session\<lparr>peer_bitfield := [True, True]\<rparr>, ex_small)"
  by (simp add: dispatch_def process_bitfield_def ex_session_def ex_conn_def ex_small_def Let_def
        upt_conv_Cons send_interested_def send_message_def)

lemma ex_bits: "\<not> bit (0x40 :: byte) 7 \<and> bit (0x40 :: byte) 6"
  by simp

text \<open>
  C7, as amended. For a payload of at least \<open>ceil(P/8)\<close> bytes, \<open>P\<close> the length of
  the session's availability map, and a send that does not raise, dispatching message
  id 5 leaves a map of the same length in which entry \<open>i\<close> is true exactly when it was
  true before or bit \<open>7 - i mod 8\<close> of payload byte \<open>i div 8\<close> is set. Entries are
  set, never cleared.
\<close>

theorem dispatch_bitfield:
  assumes "(length (peer_bitfield c) + 7) div 8 \<le> length payload" and "send_io = IoOk"
  shows "\<exists>step c'. dispatch send_io wr asm disk 5 payload (c, pm) = Some (step, c', pm) \<and>
           length (peer_bitfield c') = length (peer_bitfield c) \<and>
           (\<forall>i<length (peer_bitfield c).
              peer_bitfield c' ! i =
                (peer_bitfield c ! i \<or> bit (payload ! (i div 8)) (7 - i mod 8)))"
  using dispatch_bitfield_map [of wr asm disk payload c pm]
    process_bitfield_merges [OF assms(1)] assms(2)
  by auto

text \<open>C7, as amended, at \<open>ex_conn\<close>, whose map is all false, and the payload 0x40.\<close>

theorem dispatch_bitfield_witness:
  "(length (peer_bitfield ex_conn) + 7) div 8 \<le> length [0x40 :: byte] \<and>
   dispatch IoOk IoOk IoOk (\<lambda>_. None) 5 [0x40] (ex_conn, ex_small) =
     Some (Continue, ex_conn\<lparr>peer_bitfield := [False, True]\<rparr>, ex_small) \<and>
   \<not> bit (0x40 :: byte) 7 \<and> bit (0x40 :: byte) 6"
proof -
  have h: "(length (peer_bitfield ex_conn) + 7) div 8 \<le> length [0x40 :: byte]"
    by (simp add: ex_conn_def)
  note b = ex_bits
  from dispatch_bitfield [OF h refl, of IoOk IoOk "\<lambda>_. None" ex_small] ex_conn_bitfield h b
  show ?thesis by blast
qed

text \<open>
  C7 as stated fails. \<open>ex_session\<close> has piece 0 marked; the payload 0x40 has bit 7
  of byte 0 clear, and piece 0 is still marked after the dispatch.
\<close>

theorem bitfield_replace_counterexample:
  "(length (peer_bitfield ex_session) + 7) div 8 \<le> length [0x40 :: byte] \<and>
   \<not> bit (0x40 :: byte) 7 \<and>
   dispatch IoOk IoOk IoOk (\<lambda>_. None) 5 [0x40] (ex_session, ex_small) =
     Some (Continue, ex_session\<lparr>peer_bitfield := [True, True]\<rparr>, ex_small) \<and>
   peer_bitfield (ex_session\<lparr>peer_bitfield := [True, True]\<rparr>) ! 0"
  using ex_session_bitfield ex_bits by (simp add: ex_session_def)

section \<open>The announce response\<close>

lemma announce_returns_peers_field:
  "post (announce_payload own_id ih port pm event) = HttpResponse 200 (Some (JObj data)) \<Longrightarrow>
   dict_get data ''peers'' = Some peers \<Longrightarrow>
   announce_to_tracker post own_id ih port pm event = peers"
  by (simp add: announce_to_tracker_def)

text \<open>
  C8. The tracker answers with the compact form, the six characters 7F 00 00 01 1A E1 in
  the \<^verbatim>\<open>peers\<close> member. \<^verbatim>\<open>_announce_to_tracker\<close> returns that string as it is, not
  the list with the peer 127.0.0.1:6881.
\<close>

theorem announce_compact_undecoded:
  "announce_to_tracker
     (\<lambda>_. HttpResponse 200 (Some (JObj [(''tracker_id'', JStr ''simple_tracker_v1''),
        (''failure_reason'', JNull),
        (''peers'', JStr [char_of (0x7F :: nat), char_of (0 :: nat), char_of (0 :: nat),
                          char_of (1 :: nat), char_of (0x1A :: nat), char_of (0xE1 :: nat)]),
        (''warning'', JNull)])))
     own_id ih port pm event =
   JStr [char_of (0x7F :: nat), char_of (0 :: nat), char_of (0 :: nat),
         char_of (1 :: nat), char_of (0x1A :: nat), char_of (0xE1 :: nat)] \<and>
   announce_to_tracker
     (\<lambda>_. HttpResponse 200 (Some (JObj [(''tracker_id'', JStr ''simple_tracker_v1''),
        (''failure_reason'', JNull),
        (''peers'', JStr [char_of (0x7F :: nat), char_of (0 :: nat), char_of (0 :: nat),
                          char_of (1 :: nat), char_of (0x1A :: nat), char_of (0xE1 :: nat)]),
        (''warning'', JNull)])))
     own_id ih port pm event \<noteq>
   JArr [JObj [(''ip'', JStr ''127.0.0.1''), (''port'', JNum 6881)]]"
  by (simp add: announce_to_tracker_def dict_get_def)

section \<open>Parsing a magnet link\<close>

lemma dict_append_nonempty:
  "\<forall>(k, vs)\<in>set d. vs \<noteq> [] \<Longrightarrow> \<forall>(k, vs)\<in>set (dict_append d kv). vs \<noteq> []"
  by (induction d kv rule: dict_append.induct) auto

lemma foldl_dict_append_nonempty:
  "\<forall>(k, vs)\<in>set d. vs \<noteq> [] \<Longrightarrow> \<forall>(k, vs)\<in>set (foldl dict_append d kvs). vs \<noteq> []"
proof (induction kvs arbitrary: d)
  case Nil
  then show ?case by simp
next
  case (Cons kv kvs)
  from Cons.IH [OF dict_append_nonempty [OF Cons.prems, of kv]]
  show ?case by simp
qed

lemma parse_qs_ascii_nonempty: "\<forall>q k. parse_qs_ascii q k \<noteq> Some []"
  using foldl_dict_append_nonempty [of "[]"]
  by (fastforce simp: parse_qs_ascii_def dest!: map_of_SomeD)

lemma find_btih_None:
  "find_btih lower xts = None \<longleftrightarrow> \<not> (\<exists>xt\<in>set xts. startswith xt (ustr ''urn:btih:''))"
proof -
  have "filter (\<lambda>xt. startswith xt (ustr ''urn:btih:'')) xts = [] \<longleftrightarrow>
          \<not> (\<exists>xt\<in>set xts. startswith xt (ustr ''urn:btih:''))"
    by (simp add: filter_empty_conv)
  then show ?thesis
    by (cases "filter (\<lambda>xt. startswith xt (ustr ''urn:btih:'')) xts") (simp_all add: find_btih_def)
qed

lemma find_btih_SomeD:
  "find_btih lower xts = Some h \<Longrightarrow>
     \<exists>pre xt post. xts = pre @ xt # post \<and> (\<forall>x\<in>set pre. \<not> startswith x (ustr ''urn:btih:'')) \<and>
        startswith xt (ustr ''urn:btih:'') \<and> h = lower (drop 9 xt)"
  by (auto simp: find_btih_def filter_eq_Cons_iff split: list.splits)

lemma ex_magnet_parsed:
  "parse_magnet parse_qs_ascii lower_ascii ex_magnet_url =
     Inr \<lparr>mag_info_hash = ustr ''da23614e02469a0d7c7bd1bdab5c9c474b1904dc'',
          mag_name = Some (ustr ''my file''),
          mag_trackers = Some [ustr ''http://t1'', ustr ''t2'']\<rparr>"
  by code_simp

lemma ex_magnet_other_fails:
  "parse_magnet parse_qs_ascii lower_ascii ex_magnet_other = Inl ValueError"
  by code_simp

lemma ex_magnet_prefixes:
  "startswith ex_magnet_url (ustr ''magnet:?'')" "startswith ex_magnet_other (ustr ''magnet:?'')"
  by code_simp+

text \<open>
  C9. Whatever \<^verbatim>\<open>str.lower\<close> computes, and whatever \<^verbatim>\<open>parse_qs\<close> computes as long
  as it gives every name of its dictionary at least one value, as urllib's does:
  \<^verbatim>\<open>parse_magnet\<close> raises exactly when the URL does not start with \<^verbatim>\<open>magnet:?\<close> or
  its query has no \<^verbatim>\<open>xt\<close> value that starts with \<^verbatim>\<open>urn:btih:\<close>. When it returns,
  \<^verbatim>\<open>info_hash\<close> is the lower-cased rest of the first such \<^verbatim>\<open>xt\<close> value,
  \<^verbatim>\<open>name\<close> is the first \<^verbatim>\<open>dn\<close> value when there is one, and \<^verbatim>\<open>trackers\<close> is
  the list of the \<^verbatim>\<open>tr\<close> values when there are any.
\<close>

theorem parse_magnet_spec:
  assumes "\<forall>q k. parse_qs q k \<noteq> Some []"
  shows "((\<exists>e. parse_magnet parse_qs lower url = Inl e) \<longleftrightarrow>
      (\<not> startswith url (ustr ''magnet:?'') \<or>
       \<not> (\<exists>xts. parse_qs (drop 8 url) (ustr ''xt'') = Some xts \<and>
               (\<exists>xt\<in>set xts. startswith xt (ustr ''urn:btih:''))))) \<and>
   (\<forall>m. parse_magnet parse_qs lower url = Inr m \<longrightarrow>
      (\<exists>xts pre xt post. parse_qs (drop 8 url) (ustr ''xt'') = Some xts \<and>
          xts = pre @ xt # post \<and> (\<forall>x\<in>set pre. \<not> startswith x (ustr ''urn:btih:'')) \<and>
          startswith xt (ustr ''urn:btih:'') \<and> mag_info_hash m = lower (drop 9 xt)) \<and>
      mag_name m = map_option hd (parse_qs (drop 8 url) (ustr ''dn'')) \<and>
      mag_trackers m = parse_qs (drop 8 url) (ustr ''tr''))"
proof (cases "startswith url (ustr ''magnet:?'')")
  case False
  then show ?thesis by (simp add: parse_magnet_def)
next
  case True
  let ?params = "parse_qs (drop 8 url)"
  let ?ih = "case ?params (ustr ''xt'') of None \<Rightarrow> None | Some xts \<Rightarrow> find_btih lower xts"
  have dn: "?params (ustr ''dn'') \<noteq> Some []"
    using assms by blast
  have pm: "parse_magnet parse_qs lower url =
      (case ?ih of None \<Rightarrow> Inl ValueError
       | Some h \<Rightarrow> Inr \<lparr>mag_info_hash = h, mag_name = map_option hd (?params (ustr ''dn'')),
                         mag_trackers = ?params (ustr ''tr'')\<rparr>)"
    using True dn by (simp add: parse_magnet_def Let_def split: option.splits list.splits)
  show ?thesis
  proof (cases ?ih)
    case None
    then have "\<not> (\<exists>xts. ?params (ustr ''xt'') = Some xts \<and>
                 (\<exists>xt\<in>set xts. startswith xt (ustr ''urn:btih:'')))"
      by (auto simp: find_btih_None split: option.splits)
    with None pm True show ?thesis by simp
  next
    case (Some h)
    then obtain xts where xts: "?params (ustr ''xt'') = Some xts" "find_btih lower xts = Some h"
      by (auto split: option.splits)
    from xts(2) obtain pre xt post where d: "xts = pre @ xt # post"
      "\<forall>x\<in>set pre. \<not> startswith x (ustr ''urn:btih:'')" "startswith xt (ustr ''urn:btih:'')"
      "h = lower (drop 9 xt)"
      using find_btih_SomeD by blast
    have ex: "\<exists>xts. ?params (ustr ''xt'') = Some xts \<and>
                (\<exists>xt\<in>set xts. startswith xt (ustr ''urn:btih:''))"
      using xts(1) d by auto
    show ?thesis
      using Some pm True ex xts(1) d by auto
  qed
qed

text \<open>
  C9, with the two library functions on ASCII input, at \<open>ex_magnet_url\<close> and at a
  link whose \<^verbatim>\<open>xt\<close> has another namespace.
\<close>

theorem parse_magnet_spec_witness:
  "(\<forall>q k. parse_qs_ascii q k \<noteq> Some []) \<and>
   parse_magnet parse_qs_ascii lower_ascii ex_magnet_url =
     Inr \<lparr>mag_info_hash = ustr ''da23614e02469a0d7c7bd1bdab5c9c474b1904dc'',
          mag_name = Some (ustr ''my file''),
          mag_trackers = Some [ustr ''http://t1'', ustr ''t2'']\<rparr> \<and>
   startswith ex_magnet_url (ustr ''magnet:?'') \<and>
   (\<exists>xts. parse_qs_ascii (drop 8 ex_magnet_url) (ustr ''xt'') = Some xts \<and>
      (\<exists>xt\<in>set xts. startswith xt (ustr ''urn:btih:''))) \<and>
   parse_qs_ascii (drop 8 ex_magnet_url) (ustr ''tr'') = Some [ustr ''http://t1'', ustr ''t2''] \<and>
   parse_magnet parse_qs_ascii lower_ascii ex_magnet_other = Inl ValueError \<and>
   startswith ex_magnet_other (ustr ''magnet:?'') \<and>
   \<not> (\<exists>xts. parse_qs_ascii (drop 8 ex_magnet_other) (ustr ''xt'') = Some xts \<and>
      (\<exists>xt\<in>set xts. startswith xt (ustr ''urn:btih:'')))"
proof -
  have ne: "\<not> (\<exists>e. parse_magnet parse_qs_ascii lower_ascii ex_magnet_url = Inl e)"
    using ex_magnet_parsed by simp
  have tr: "mag_trackers \<lparr>mag_info_hash = ustr ''da23614e02469a0d7c7bd1bdab5c9c474b1904dc'',
          mag_name = Some (ustr ''my file''),
          mag_trackers = Some [ustr ''http://t1'', ustr ''t2'']\<rparr> =
          Some [ustr ''http://t1'', ustr ''t2'']"
    by simp
  from parse_magnet_spec [OF parse_qs_ascii_nonempty, of lower_ascii ex_magnet_url]
    parse_magnet_spec [OF parse_qs_ascii_nonempty, of lower_ascii ex_magnet_other]
    ex_magnet_parsed ex_magnet_other_fails ne ex_magnet_prefixes tr parse_qs_ascii_nonempty
  show ?thesis by metis
qed

end
